theory Spec2Isabelle
  imports Main "HOL-Library.Word" "HOL-Library.Signed_Division"
begin

unbundle bit_operations_syntax

section \<open>Nullable integers: Int16, Uint and Uint64\<close>

text \<open>
  The three source files declare the nullable types \<open>Int16\<close>, \<open>Uint\<close> and \<open>Uint64\<close> of
  package \<open>null\<close>. Each method with a pointer receiver is a function from the old struct
  (and the arguments) to the new struct and the returned error; \<open>None\<close> is Go's \<open>nil\<close>
  error. A byte slice is a \<open>string\<close> (a list of 8-bit characters); a nil slice and an
  empty slice are both \<open>[]\<close>, which is all the code distinguishes (\<open>len(text) == 0\<close>).
  Go's \<open>uint\<close> is taken at its width on the 64-bit targets (\<open>strconv.IntSize = 64\<close>).
\<close>

subsection \<open>Errors\<close>

datatype NumErr = ErrSyntax | ErrRange | ErrBitSize

datatype error =
    SyntaxError                 \<comment> \<open>\<open>*json.SyntaxError\<close>: the bytes are not one JSON value\<close>
  | UnmarshalTypeError string   \<comment> \<open>\<open>*json.UnmarshalTypeError\<close>, with its \<open>Value\<close> field\<close>
  | OverflowError "64 word"     \<comment> \<open>\<open>fmt.Errorf("json: %d overflows max int16 value", x)\<close>\<close>
  | TypeMismatchError string    \<comment> \<open>\<open>fmt.Errorf("json: cannot unmarshal %v into Go value of type ...")\<close>\<close>
  | NumError NumErr             \<comment> \<open>\<open>*strconv.NumError\<close> with its \<open>Err\<close> field\<close>
  | ConversionError             \<comment> \<open>an error of \<open>convert.ConvertAssign\<close>\<close>

subsection \<open>Package strconv, base 10\<close>

definition isDigit :: "char \<Rightarrow> bool" where
  "isDigit c = (48 \<le> (of_char c :: nat) \<and> (of_char c :: nat) \<le> 57)"

text \<open>The digit table of \<open>strconv\<close>, read at an index below 10.\<close>

definition digits :: string where
  "digits = ''0123456789''"

definition digit_char :: "nat \<Rightarrow> char" where
  "digit_char d = digits ! d"

text \<open>\<open>formatBits\<close> in base 10: the decimal digits of \<open>n\<close>, most significant first.\<close>

fun formatBits :: "nat \<Rightarrow> string" where
  "formatBits n = (if n < 10 then [digit_char n]
                   else formatBits (n div 10) @ [digit_char (n mod 10)])"

declare formatBits.simps [simp del]

definition FormatUint :: "64 word \<Rightarrow> string" where
  "FormatUint u = formatBits (unat u)"

text \<open>\<open>FormatInt(i, 10)\<close> negates the value as a \<open>uint64\<close> when \<open>i < 0\<close> and prefixes \<open>-\<close>.\<close>

definition FormatInt :: "64 word \<Rightarrow> string" where
  "FormatInt i = (if i <s 0 then CHR ''-'' # formatBits (unat (- i)) else formatBits (unat i))"

text \<open>
  \<open>ParseUint(s, 10, bitSize)\<close>. The loop reads one byte at a time; in base 10 every byte
  that is not a decimal digit is a syntax error with value 0, and the first digit that
  takes the value beyond \<open>maxVal\<close> stops the loop with \<open>maxVal\<close> and a range error.
\<close>

definition cutoff10 :: "64 word" where
  "cutoff10 = 1844674407370955162"  \<comment> \<open>\<open>maxUint64/10 + 1\<close>\<close>

fun ParseUint_loop :: "64 word \<Rightarrow> 64 word \<Rightarrow> string \<Rightarrow> 64 word \<times> NumErr option" where
  "ParseUint_loop maxVal n [] = (n, None)"
| "ParseUint_loop maxVal n (c # cs) =
     (if \<not> isDigit c then (0, Some ErrSyntax)
      else if n \<ge> cutoff10 then (maxVal, Some ErrRange)
      else let n' = n * 10;
               n1 = n' + of_nat (of_char c - 48)
           in if n1 < n' \<or> n1 > maxVal then (maxVal, Some ErrRange)
              else ParseUint_loop maxVal n1 cs)"

definition IntSize :: nat where
  "IntSize = 64"

text \<open>The \<open>bitSize\<close> arguments the sources pass are 0, 16 and 64.\<close>

definition ParseUint :: "string \<Rightarrow> nat \<Rightarrow> 64 word \<times> NumErr option" where
  "ParseUint s bitSize =
     (if s = [] then (0, Some ErrSyntax)
      else let bits = (if bitSize = 0 then IntSize else bitSize)
           in if bits > 64 then (0, Some ErrBitSize)
              else ParseUint_loop (push_bit bits 1 - 1) 0 s)"

definition ParseInt :: "string \<Rightarrow> nat \<Rightarrow> 64 word \<times> NumErr option" where
  "ParseInt s0 bitSize =
     (if s0 = [] then (0, Some ErrSyntax)
      else let neg = (hd s0 = CHR ''-'');
               s = (if hd s0 = CHR ''+'' \<or> hd s0 = CHR ''-'' then tl s0 else s0)
           in case ParseUint s 64 of (un, err) \<Rightarrow>
                if err \<noteq> None \<and> err \<noteq> Some ErrRange then (0, err)
                else
                  let bits = (if bitSize = 0 then IntSize else bitSize);
                      cutoff = (push_bit (bits - 1) 1 :: 64 word)
                  in if \<not> neg \<and> un \<ge> cutoff then (cutoff - 1, Some ErrRange)
                     else if neg \<and> un > cutoff then (- cutoff, Some ErrRange)
                     else (if neg then - un else un, None))"

subsection \<open>Package encoding/json: the scanner\<close>

text \<open>
  \<open>json.Unmarshal\<close> first runs \<open>checkValid\<close>: the scanner of \<open>scanner.go\<close> reads the bytes
  one at a time. Its field \<open>step\<close> holds the state function to call on the next byte and
  \<open>parseState\<close> is the stack of the composite values being scanned (here with the top at
  the head of the list). The scanner's \<open>err\<close> field is set exactly when \<open>step\<close> is
  \<open>stateError\<close>, so the model keeps the latter only.
\<close>

definition isSpace :: "char \<Rightarrow> bool" where
  "isSpace c = (c = CHR '' '' \<or> c = CHR 0x09 \<or> c = CHR 0x0D \<or> c = CHR 0x0A)"

definition isHex :: "char \<Rightarrow> bool" where
  "isHex c = (isDigit c \<or> (97 \<le> (of_char c :: nat) \<and> (of_char c :: nat) \<le> 102)
                        \<or> (65 \<le> (of_char c :: nat) \<and> (of_char c :: nat) \<le> 70))"

datatype parse_state = parseObjectKey | parseObjectValue | parseArrayValue

datatype step_fn =
    stateBeginValueOrEmpty | stateBeginValue | stateBeginStringOrEmpty | stateBeginString
  | stateEndValue | stateEndTop
  | stateInString | stateInStringEsc | stateInStringEscU | stateInStringEscU1
  | stateInStringEscU12 | stateInStringEscU123
  | stateNeg | state1 | state0 | stateDot | stateDot0 | stateE | stateESign | stateE0
  | stateT | stateTr | stateTru | stateF | stateFa | stateFal | stateFals
  | stateN | stateNu | stateNul
  | stateError

record scanner =
  step :: step_fn
  parseState :: "parse_state list"
  endTop :: bool

definition maxNestingDepth :: nat where
  "maxNestingDepth = 10000"

definition scanner_reset :: scanner where
  "scanner_reset = \<lparr>step = stateBeginValue, parseState = [], endTop = False\<rparr>"

text \<open>The scanner outside every array and object, before the end of the top-level value.\<close>

definition in_state :: "step_fn \<Rightarrow> scanner" where
  "in_state st = \<lparr>step = st, parseState = [], endTop = False\<rparr>"

definition scanner_error :: "scanner \<Rightarrow> scanner" where
  "scanner_error s = s\<lparr>step := stateError\<rparr>"

definition pushParseState :: "scanner \<Rightarrow> parse_state \<Rightarrow> scanner" where
  "pushParseState s newParseState =
     (let s' = s\<lparr>parseState := newParseState # parseState s\<rparr>
      in if length (parseState s') \<le> maxNestingDepth then s' else scanner_error s')"

definition popParseState :: "scanner \<Rightarrow> scanner" where
  "popParseState s =
     (let ps = tl (parseState s)
      in if ps = [] then s\<lparr>parseState := ps, step := stateEndTop, endTop := True\<rparr>
         else s\<lparr>parseState := ps, step := stateEndValue\<rparr>)"

definition do_stateEndTop :: "scanner \<Rightarrow> char \<Rightarrow> scanner" where
  "do_stateEndTop s c = (if \<not> isSpace c then scanner_error s else s)"

definition do_stateEndValue :: "scanner \<Rightarrow> char \<Rightarrow> scanner" where
  "do_stateEndValue s c =
     (case parseState s of
        [] \<Rightarrow> do_stateEndTop (s\<lparr>step := stateEndTop, endTop := True\<rparr>) c
      | ps # rest \<Rightarrow>
          if isSpace c then s\<lparr>step := stateEndValue\<rparr>
          else (case ps of
                  parseObjectKey \<Rightarrow>
                    if c = CHR '':'' then s\<lparr>parseState := parseObjectValue # rest,
                                              step := stateBeginValue\<rparr>
                    else scanner_error s
                | parseObjectValue \<Rightarrow>
                    if c = CHR '','' then s\<lparr>parseState := parseObjectKey # rest,
                                              step := stateBeginString\<rparr>
                    else if c = CHR ''}'' then popParseState s
                    else scanner_error s
                | parseArrayValue \<Rightarrow>
                    if c = CHR '','' then s\<lparr>step := stateBeginValue\<rparr>
                    else if c = CHR '']'' then popParseState s
                    else scanner_error s))"

definition do_stateBeginValue :: "scanner \<Rightarrow> char \<Rightarrow> scanner" where
  "do_stateBeginValue s c =
     (if isSpace c then s
      else if c = CHR ''{'' then pushParseState (s\<lparr>step := stateBeginStringOrEmpty\<rparr>) parseObjectKey
      else if c = CHR ''['' then pushParseState (s\<lparr>step := stateBeginValueOrEmpty\<rparr>) parseArrayValue
      else if c = CHR 0x22 then s\<lparr>step := stateInString\<rparr>
      else if c = CHR ''-'' then s\<lparr>step := stateNeg\<rparr>
      else if c = CHR ''0'' then s\<lparr>step := state0\<rparr>
      else if c = CHR ''t'' then s\<lparr>step := stateT\<rparr>
      else if c = CHR ''f'' then s\<lparr>step := stateF\<rparr>
      else if c = CHR ''n'' then s\<lparr>step := stateN\<rparr>
      else if isDigit c then s\<lparr>step := state1\<rparr>
      else scanner_error s)"

definition do_stateBeginValueOrEmpty :: "scanner \<Rightarrow> char \<Rightarrow> scanner" where
  "do_stateBeginValueOrEmpty s c =
     (if isSpace c then s
      else if c = CHR '']'' then do_stateEndValue s c
      else do_stateBeginValue s c)"

definition do_stateBeginString :: "scanner \<Rightarrow> char \<Rightarrow> scanner" where
  "do_stateBeginString s c =
     (if isSpace c then s
      else if c = CHR 0x22 then s\<lparr>step := stateInString\<rparr>
      else scanner_error s)"

definition do_stateBeginStringOrEmpty :: "scanner \<Rightarrow> char \<Rightarrow> scanner" where
  "do_stateBeginStringOrEmpty s c =
     (if isSpace c then s
      else if c = CHR ''}''
      then do_stateEndValue (s\<lparr>parseState := parseObjectValue # tl (parseState s)\<rparr>) c
      else do_stateBeginString s c)"

definition do_stateInString :: "scanner \<Rightarrow> char \<Rightarrow> scanner" where
  "do_stateInString s c =
     (if c = CHR 0x22 then s\<lparr>step := stateEndValue\<rparr>
      else if c = CHR 0x5C then s\<lparr>step := stateInStringEsc\<rparr>
      else if (of_char c :: nat) < 32 then scanner_error s
      else s)"

definition do_stateInStringEsc :: "scanner \<Rightarrow> char \<Rightarrow> scanner" where
  "do_stateInStringEsc s c =
     (if c \<in> {CHR ''b'', CHR ''f'', CHR ''n'', CHR ''r'', CHR ''t'', CHR 0x5C, CHR ''/'', CHR 0x22}
      then s\<lparr>step := stateInString\<rparr>
      else if c = CHR ''u'' then s\<lparr>step := stateInStringEscU\<rparr>
      else scanner_error s)"

definition do_hex :: "step_fn \<Rightarrow> scanner \<Rightarrow> char \<Rightarrow> scanner" where
  "do_hex next s c = (if isHex c then s\<lparr>step := next\<rparr> else scanner_error s)"

definition do_state0 :: "scanner \<Rightarrow> char \<Rightarrow> scanner" where
  "do_state0 s c =
     (if c = CHR ''.'' then s\<lparr>step := stateDot\<rparr>
      else if c = CHR ''e'' \<or> c = CHR ''E'' then s\<lparr>step := stateE\<rparr>
      else do_stateEndValue s c)"

definition do_state1 :: "scanner \<Rightarrow> char \<Rightarrow> scanner" where
  "do_state1 s c = (if isDigit c then s\<lparr>step := state1\<rparr> else do_state0 s c)"

definition do_stateNeg :: "scanner \<Rightarrow> char \<Rightarrow> scanner" where
  "do_stateNeg s c =
     (if c = CHR ''0'' then s\<lparr>step := state0\<rparr>
      else if isDigit c then s\<lparr>step := state1\<rparr>
      else scanner_error s)"

definition do_stateDot :: "scanner \<Rightarrow> char \<Rightarrow> scanner" where
  "do_stateDot s c = (if isDigit c then s\<lparr>step := stateDot0\<rparr> else scanner_error s)"

definition do_stateDot0 :: "scanner \<Rightarrow> char \<Rightarrow> scanner" where
  "do_stateDot0 s c =
     (if isDigit c then s
      else if c = CHR ''e'' \<or> c = CHR ''E'' then s\<lparr>step := stateE\<rparr>
      else do_stateEndValue s c)"

definition do_stateESign :: "scanner \<Rightarrow> char \<Rightarrow> scanner" where
  "do_stateESign s c = (if isDigit c then s\<lparr>step := stateE0\<rparr> else scanner_error s)"

definition do_stateE :: "scanner \<Rightarrow> char \<Rightarrow> scanner" where
  "do_stateE s c =
     (if c = CHR ''+'' \<or> c = CHR ''-'' then s\<lparr>step := stateESign\<rparr> else do_stateESign s c)"

definition do_stateE0 :: "scanner \<Rightarrow> char \<Rightarrow> scanner" where
  "do_stateE0 s c = (if isDigit c then s else do_stateEndValue s c)"

text \<open>The states inside \<open>true\<close>, \<open>false\<close> and \<open>null\<close> expect one letter each.\<close>

definition do_letter :: "char \<Rightarrow> step_fn \<Rightarrow> scanner \<Rightarrow> char \<Rightarrow> scanner" where
  "do_letter l next s c = (if c = l then s\<lparr>step := next\<rparr> else scanner_error s)"

definition scanner_step :: "scanner \<Rightarrow> char \<Rightarrow> scanner" where
  "scanner_step s c =
     (case step s of
        stateBeginValueOrEmpty \<Rightarrow> do_stateBeginValueOrEmpty s c
      | stateBeginValue \<Rightarrow> do_stateBeginValue s c
      | stateBeginStringOrEmpty \<Rightarrow> do_stateBeginStringOrEmpty s c
      | stateBeginString \<Rightarrow> do_stateBeginString s c
      | stateEndValue \<Rightarrow> do_stateEndValue s c
      | stateEndTop \<Rightarrow> do_stateEndTop s c
      | stateInString \<Rightarrow> do_stateInString s c
      | stateInStringEsc \<Rightarrow> do_stateInStringEsc s c
      | stateInStringEscU \<Rightarrow> do_hex stateInStringEscU1 s c
      | stateInStringEscU1 \<Rightarrow> do_hex stateInStringEscU12 s c
      | stateInStringEscU12 \<Rightarrow> do_hex stateInStringEscU123 s c
      | stateInStringEscU123 \<Rightarrow> do_hex stateInString s c
      | stateNeg \<Rightarrow> do_stateNeg s c
      | state1 \<Rightarrow> do_state1 s c
      | state0 \<Rightarrow> do_state0 s c
      | stateDot \<Rightarrow> do_stateDot s c
      | stateDot0 \<Rightarrow> do_stateDot0 s c
      | stateE \<Rightarrow> do_stateE s c
      | stateESign \<Rightarrow> do_stateESign s c
      | stateE0 \<Rightarrow> do_stateE0 s c
      | stateT \<Rightarrow> do_letter CHR ''r'' stateTr s c
      | stateTr \<Rightarrow> do_letter CHR ''u'' stateTru s c
      | stateTru \<Rightarrow> do_letter CHR ''e'' stateEndValue s c
      | stateF \<Rightarrow> do_letter CHR ''a'' stateFa s c
      | stateFa \<Rightarrow> do_letter CHR ''l'' stateFal s c
      | stateFal \<Rightarrow> do_letter CHR ''s'' stateFals s c
      | stateFals \<Rightarrow> do_letter CHR ''e'' stateEndValue s c
      | stateN \<Rightarrow> do_letter CHR ''u'' stateNu s c
      | stateNu \<Rightarrow> do_letter CHR ''l'' stateNul s c
      | stateNul \<Rightarrow> do_letter CHR ''l'' stateEndValue s c
      | stateError \<Rightarrow> s)"

text \<open>\<open>eof\<close>: the scan ends well when a top-level value is complete, if need be after
  one more space.\<close>

definition scanner_eof :: "scanner \<Rightarrow> bool" where
  "scanner_eof s =
     (if step s = stateError then False
      else if endTop s then True
      else endTop (scanner_step s CHR '' ''))"

definition checkValid :: "string \<Rightarrow> bool" where
  "checkValid data = scanner_eof (foldl scanner_step scanner_reset data)"

subsection \<open>Package encoding/json: decoding one value\<close>

text \<open>
  After \<open>checkValid\<close> the decoder skips the leading space and looks at the first byte of
  the value. A number literal is the run of bytes that \<open>rescanLiteral\<close> accepts: digits,
  \<open>.\<close>, \<open>e\<close>, \<open>E\<close>, \<open>+\<close> and \<open>-\<close>.
\<close>

definition isNumberChar :: "char \<Rightarrow> bool" where
  "isNumberChar c =
     (isDigit c \<or> c = CHR ''.'' \<or> c = CHR ''e'' \<or> c = CHR ''E'' \<or> c = CHR ''+'' \<or> c = CHR ''-'')"

definition digits_value :: "string \<Rightarrow> nat" where
  "digits_value ds = foldl (\<lambda>a c. 10 * a + (of_char c - 48)) 0 ds"

text \<open>
  A number stored into an \<open>interface{}\<close> goes through \<open>strconv.ParseFloat(s, 64)\<close>, which
  fails when the literal is out of the range of \<open>float64\<close>. By the contract of
  \<open>ParseFloat\<close> (the nearest \<open>float64\<close>, ties to even, and a range error when that is
  infinite) this is when the magnitude reaches \<open>2^1024 - 2^970\<close>, halfway between the
  largest \<open>float64\<close> and \<open>2^1024\<close>. The literal is read as a decimal mantissa and a power
  of ten, so that the comparison is one of natural numbers.
\<close>

definition number_mantissa_exp :: "string \<Rightarrow> nat \<times> int" where
  "number_mantissa_exp lit =
     (let s1 = (if lit \<noteq> [] \<and> hd lit = CHR ''-'' then tl lit else lit);
          ip = takeWhile isDigit s1;
          r1 = dropWhile isDigit s1;
          dot = (r1 \<noteq> [] \<and> hd r1 = CHR ''.'');
          fp = (if dot then takeWhile isDigit (tl r1) else []);
          r2 = (if dot then dropWhile isDigit (tl r1) else r1);
          e = (if r2 \<noteq> [] \<and> (hd r2 = CHR ''e'' \<or> hd r2 = CHR ''E'')
               then let r3 = tl r2;
                        neg = (r3 \<noteq> [] \<and> hd r3 = CHR ''-'');
                        ds = (if r3 \<noteq> [] \<and> (hd r3 = CHR ''+'' \<or> hd r3 = CHR ''-'')
                              then tl r3 else r3)
                    in if neg then - int (digits_value ds) else int (digits_value ds)
               else 0)
      in (digits_value (ip @ fp), e - int (length fp)))"

definition float64_limit :: nat where
  "float64_limit = 2 ^ 1024 - 2 ^ 970"

definition ParseFloat_ErrRange :: "string \<Rightarrow> bool" where
  "ParseFloat_ErrRange lit =
     (case number_mantissa_exp lit of (m, e) \<Rightarrow>
        if 0 \<le> e then float64_limit \<le> m * 10 ^ nat e
        else float64_limit * 10 ^ nat (- e) \<le> m)"

text \<open>
  The number literals of a valid JSON text, in order: the decoder of an \<open>interface{}\<close>
  converts each of them, also inside arrays and objects, and keeps the first error.
  Strings are skipped, with their escapes.
\<close>

datatype lex_mode = Outside | InNumber | InString | InStringEsc

fun number_literals_from :: "lex_mode \<Rightarrow> string \<Rightarrow> string \<Rightarrow> string list" where
  "number_literals_from m cur [] = (if m = InNumber then [rev cur] else [])"
| "number_literals_from m cur (c # cs) =
     (case m of
        Outside \<Rightarrow>
          if c = CHR 0x22 then number_literals_from InString [] cs
          else if c = CHR ''-'' \<or> isDigit c then number_literals_from InNumber [c] cs
          else number_literals_from Outside [] cs
      | InNumber \<Rightarrow>
          if isNumberChar c then number_literals_from InNumber (c # cur) cs
          else rev cur # (if c = CHR 0x22 then number_literals_from InString [] cs
                          else number_literals_from Outside [] cs)
      | InString \<Rightarrow>
          if c = CHR 0x22 then number_literals_from Outside [] cs
          else if c = CHR 0x5C then number_literals_from InStringEsc [] cs
          else number_literals_from InString [] cs
      | InStringEsc \<Rightarrow> number_literals_from InString [] cs)"

definition number_literals :: "string \<Rightarrow> string list" where
  "number_literals data = number_literals_from Outside [] data"

subsubsection \<open>Strings\<close>

text \<open>
  \<open>unquote\<close> turns the bytes of a string literal into the string: escapes are replaced,
  a \<open>\u\<close> escape by the UTF-8 encoding of its code point (a surrogate pair by the one
  code point it encodes, a lone surrogate by U+FFFD), and bytes that are not well-formed
  UTF-8 by U+FFFD.
\<close>

definition hexval :: "char \<Rightarrow> nat" where
  "hexval c =
     (let n = (of_char c :: nat)
      in if isDigit c then n - 48 else if 97 \<le> n then n - 87 else n - 55)"

definition getu4 :: "string \<Rightarrow> nat option" where
  "getu4 s =
     (case s of
        b # u # h1 # h2 # h3 # h4 # _ \<Rightarrow>
          if b = CHR 0x5C \<and> u = CHR ''u'' \<and> isHex h1 \<and> isHex h2 \<and> isHex h3 \<and> isHex h4
          then Some (((hexval h1 * 16 + hexval h2) * 16 + hexval h3) * 16 + hexval h4)
          else None
      | _ \<Rightarrow> None)"

definition RuneError :: nat where
  "RuneError = 0xFFFD"

definition IsSurrogate :: "nat \<Rightarrow> bool" where
  "IsSurrogate r = (0xD800 \<le> r \<and> r < 0xE000)"

text \<open>\<open>utf16.DecodeRune\<close>, with \<open>None\<close> for the \<open>-1\<close> of a missing second escape.\<close>

definition utf16_DecodeRune :: "nat \<Rightarrow> nat option \<Rightarrow> nat" where
  "utf16_DecodeRune r1 r2o =
     (case r2o of
        None \<Rightarrow> RuneError
      | Some r2 \<Rightarrow>
          if 0xD800 \<le> r1 \<and> r1 < 0xDC00 \<and> 0xDC00 \<le> r2 \<and> r2 < 0xE000
          then (r1 - 0xD800) * 1024 + (r2 - 0xDC00) + 0x10000
          else RuneError)"

definition EncodeRune :: "nat \<Rightarrow> string" where
  "EncodeRune r0 =
     (let r = (if IsSurrogate r0 \<or> r0 > 0x10FFFF then RuneError else r0)
      in if r < 0x80 then [char_of r]
         else if r < 0x800 then [char_of (0xC0 + r div 64), char_of (0x80 + r mod 64)]
         else if r < 0x10000
         then [char_of (0xE0 + r div 4096), char_of (0x80 + r div 64 mod 64),
               char_of (0x80 + r mod 64)]
         else [char_of (0xF0 + r div 262144), char_of (0x80 + r div 4096 mod 64),
               char_of (0x80 + r div 64 mod 64), char_of (0x80 + r mod 64)])"

text \<open>
  The length of the well-formed UTF-8 sequence at the head of the bytes, or 0 when
  there is none (\<open>utf8.DecodeRune\<close> then yields \<open>RuneError\<close> and width 1).
\<close>

definition in_range :: "char \<Rightarrow> nat \<Rightarrow> nat \<Rightarrow> bool" where
  "in_range c lo hi = (lo \<le> (of_char c :: nat) \<and> (of_char c :: nat) \<le> hi)"

definition utf8_width :: "string \<Rightarrow> nat" where
  "utf8_width s =
     (case s of
        b0 # b1 # rest \<Rightarrow>
          if in_range b0 0xC2 0xDF then (if in_range b1 0x80 0xBF then 2 else 0)
          else if (in_range b0 0xE0 0xE0 \<and> in_range b1 0xA0 0xBF)
                \<or> (in_range b0 0xE1 0xEC \<and> in_range b1 0x80 0xBF)
                \<or> (in_range b0 0xED 0xED \<and> in_range b1 0x80 0x9F)
                \<or> (in_range b0 0xEE 0xEF \<and> in_range b1 0x80 0xBF)
          then (case rest of b2 # _ \<Rightarrow> if in_range b2 0x80 0xBF then 3 else 0 | [] \<Rightarrow> 0)
          else if (in_range b0 0xF0 0xF0 \<and> in_range b1 0x90 0xBF)
                \<or> (in_range b0 0xF1 0xF3 \<and> in_range b1 0x80 0xBF)
                \<or> (in_range b0 0xF4 0xF4 \<and> in_range b1 0x80 0x8F)
          then (case rest of
                  b2 # b3 # _ \<Rightarrow>
                    if in_range b2 0x80 0xBF \<and> in_range b3 0x80 0xBF then 4 else 0
                | _ \<Rightarrow> 0)
          else 0
      | _ \<Rightarrow> 0)"

definition unescape :: "char \<Rightarrow> char" where
  "unescape e =
     (if e = CHR ''b'' then CHR 0x08 else if e = CHR ''f'' then CHR 0x0C
      else if e = CHR ''n'' then CHR 0x0A else if e = CHR ''r'' then CHR 0x0D
      else if e = CHR ''t'' then CHR 0x09 else e)"

text \<open>
  The argument starts after the opening quote; the closing quote ends the string. The
  scanner has accepted the literal, so that every escape is complete and no byte is a
  control character.
\<close>

fun unquote_body :: "string \<Rightarrow> string" where
  "unquote_body [] = []"
| "unquote_body (c # cs) =
     (if c = CHR 0x22 then []
      else if c = CHR 0x5C
      then (case cs of
              [] \<Rightarrow> []
            | e # r \<Rightarrow>
                if e = CHR ''u''
                then (case getu4 (c # cs) of
                        None \<Rightarrow> []
                      | Some rr \<Rightarrow>
                          if IsSurrogate rr
                          then (let dec = utf16_DecodeRune rr (getu4 (drop 4 r))
                                in if dec \<noteq> RuneError
                                   then EncodeRune dec @ unquote_body (drop 10 r)
                                   else EncodeRune RuneError @ unquote_body (drop 4 r))
                          else EncodeRune rr @ unquote_body (drop 4 r))
                else unescape e # unquote_body r)
      else if (of_char c :: nat) < 0x80 then c # unquote_body cs
      else (let n = utf8_width (c # cs)
            in if n = 0 then EncodeRune RuneError @ unquote_body cs
               else take n (c # cs) @ unquote_body (drop (n - 1) cs)))"

subsubsection \<open>Unmarshal into an int64, a uint64 and an interface\<close>

text \<open>
  \<open>json.Unmarshal(data, &x)\<close> for \<open>x\<close> of type \<open>int64\<close> or \<open>uint64\<close>: the second argument
  is the value \<open>x\<close> holds before the call, the result is the value it holds afterwards
  and the error. The literal \<open>null\<close> leaves \<open>x\<close> as it is, without an error; any value
  that is not a number in the range of the type is an \<open>UnmarshalTypeError\<close>.
\<close>

definition json_type_error :: "char \<Rightarrow> error option" where
  "json_type_error c =
     (if c = CHR ''{'' then Some (UnmarshalTypeError ''object'')
      else if c = CHR ''['' then Some (UnmarshalTypeError ''array'')
      else if c = CHR ''t'' \<or> c = CHR ''f'' then Some (UnmarshalTypeError ''bool'')
      else if c = CHR 0x22 then Some (UnmarshalTypeError ''string'')
      else None)"

definition json_Unmarshal_int64 :: "string \<Rightarrow> 64 word \<Rightarrow> 64 word \<times> error option" where
  "json_Unmarshal_int64 data x =
     (if \<not> checkValid data then (x, Some SyntaxError)
      else let item = dropWhile isSpace data;
               c = hd item
           in if c = CHR ''n'' then (x, None)
              else if json_type_error c \<noteq> None then (x, json_type_error c)
              else let lit = takeWhile isNumberChar item
                   in case ParseInt lit 64 of
                        (n, None) \<Rightarrow> (n, None)
                      | (_, Some e) \<Rightarrow> (x, Some (UnmarshalTypeError (''number '' @ lit))))"

definition json_Unmarshal_uint64 :: "string \<Rightarrow> 64 word \<Rightarrow> 64 word \<times> error option" where
  "json_Unmarshal_uint64 data x =
     (if \<not> checkValid data then (x, Some SyntaxError)
      else let item = dropWhile isSpace data;
               c = hd item
           in if c = CHR ''n'' then (x, None)
              else if json_type_error c \<noteq> None then (x, json_type_error c)
              else let lit = takeWhile isNumberChar item
                   in case ParseUint lit 64 of
                        (n, None) \<Rightarrow> (n, None)
                      | (_, Some e) \<Rightarrow> (x, Some (UnmarshalTypeError (''number '' @ lit))))"

text \<open>
  The value that \<open>json.Unmarshal(data, &v)\<close> stores in an empty \<open>interface{}\<close>. The code
  only switches on its dynamic type and reads a string, so that the number of a
  \<open>float64\<close> and the elements of an array or an object are not kept.
\<close>

datatype json_value =
    JNil | JBool bool | JFloat64 | JString string | JArray | JObject

definition json_Unmarshal_interface :: "string \<Rightarrow> error + json_value" where
  "json_Unmarshal_interface data =
     (if \<not> checkValid data then Inl SyntaxError
      else case find ParseFloat_ErrRange (number_literals data) of
             Some lit \<Rightarrow> Inl (UnmarshalTypeError (''number '' @ lit))
           | None \<Rightarrow>
               let item = dropWhile isSpace data;
                   c = hd item
               in Inr (if c = CHR ''{'' then JObject
                       else if c = CHR ''['' then JArray
                       else if c = CHR ''n'' then JNil
                       else if c = CHR ''t'' then JBool True
                       else if c = CHR ''f'' then JBool False
                       else if c = CHR 0x22 then JString (unquote_body (tl item))
                       else JFloat64))"

text \<open>\<open>reflect.TypeOf(v).Name()\<close>: the slice and map types have no name.\<close>

definition TypeOf_Name :: "json_value \<Rightarrow> string" where
  "TypeOf_Name v =
     (case v of
        JNil \<Rightarrow> []
      | JBool _ \<Rightarrow> ''bool''
      | JFloat64 \<Rightarrow> ''float64''
      | JString _ \<Rightarrow> ''string''
      | JArray \<Rightarrow> []
      | JObject \<Rightarrow> [])"


subsection \<open>The nullable types\<close>

record Int16 =
  Int16_Int16 :: "16 word"
  Int16_Valid :: bool
  Int16_set :: bool

record Uint =
  Uint_Uint :: "64 word"
  Uint_Valid :: bool

record Uint64 =
  Uint64_Uint64 :: "64 word"
  Uint64_Valid :: bool

text \<open>
  Modelled from the spec: \<open>NullBytes\<close>, a variable of package \<open>null\<close> declared in a file
  that is not among the sources. The spec calls it "the JSON null literal".
\<close>

definition NullBytes :: string where
  "NullBytes = ''null''"

definition NewInt16 :: "16 word \<Rightarrow> bool \<Rightarrow> bool \<Rightarrow> Int16" where
  "NewInt16 i valid st = \<lparr>Int16_Int16 = i, Int16_Valid = valid, Int16_set = st\<rparr>"

definition Int16From :: "16 word \<Rightarrow> Int16" where
  "Int16From i = NewInt16 i True True"

definition Int16FromPtr :: "16 word option \<Rightarrow> Int16" where
  "Int16FromPtr p = (case p of None \<Rightarrow> NewInt16 0 False True | Some i \<Rightarrow> NewInt16 i True True)"

definition Int16_IsSet :: "Int16 \<Rightarrow> bool" where
  "Int16_IsSet i = Int16_set i"

definition NewUint :: "64 word \<Rightarrow> bool \<Rightarrow> Uint" where
  "NewUint i valid = \<lparr>Uint_Uint = i, Uint_Valid = valid\<rparr>"

definition UintFrom :: "64 word \<Rightarrow> Uint" where
  "UintFrom i = NewUint i True"

definition UintFromPtr :: "64 word option \<Rightarrow> Uint" where
  "UintFromPtr p = (case p of None \<Rightarrow> NewUint 0 False | Some i \<Rightarrow> NewUint i True)"

definition NewUint64 :: "64 word \<Rightarrow> bool \<Rightarrow> Uint64" where
  "NewUint64 i valid = \<lparr>Uint64_Uint64 = i, Uint64_Valid = valid\<rparr>"

definition Uint64From :: "64 word \<Rightarrow> Uint64" where
  "Uint64From i = NewUint64 i True"

definition Uint64FromPtr :: "64 word option \<Rightarrow> Uint64" where
  "Uint64FromPtr p = (case p of None \<Rightarrow> NewUint64 0 False | Some i \<Rightarrow> NewUint64 i True)"

subsection \<open>MarshalJSON and MarshalText\<close>

text \<open>\<open>int64(i.Int16)\<close> is the sign extension \<open>scast\<close>; \<open>uint64(u.Uint)\<close> is the identity.\<close>

definition Int16_MarshalJSON :: "Int16 \<Rightarrow> string \<times> error option" where
  "Int16_MarshalJSON i =
     (if \<not> Int16_Valid i then (NullBytes, None)
      else (FormatInt (scast (Int16_Int16 i)), None))"

definition Int16_MarshalText :: "Int16 \<Rightarrow> string \<times> error option" where
  "Int16_MarshalText i =
     (if \<not> Int16_Valid i then ([], None)
      else (FormatInt (scast (Int16_Int16 i)), None))"

definition Uint_MarshalJSON :: "Uint \<Rightarrow> string \<times> error option" where
  "Uint_MarshalJSON u =
     (if \<not> Uint_Valid u then (NullBytes, None) else (FormatUint (Uint_Uint u), None))"

definition Uint_MarshalText :: "Uint \<Rightarrow> string \<times> error option" where
  "Uint_MarshalText u =
     (if \<not> Uint_Valid u then ([], None) else (FormatUint (Uint_Uint u), None))"

definition Uint64_MarshalJSON :: "Uint64 \<Rightarrow> string \<times> error option" where
  "Uint64_MarshalJSON u =
     (if \<not> Uint64_Valid u then (NullBytes, None) else (FormatUint (Uint64_Uint64 u), None))"

definition Uint64_MarshalText :: "Uint64 \<Rightarrow> string \<times> error option" where
  "Uint64_MarshalText u =
     (if \<not> Uint64_Valid u then ([], None) else (FormatUint (Uint64_Uint64 u), None))"

subsection \<open>UnmarshalJSON\<close>

text \<open>\<open>x > math.MaxInt16\<close> compares signed 64-bit values; \<open>int16(x)\<close> keeps the low 16 bits.\<close>

definition Int16_UnmarshalJSON :: "Int16 \<Rightarrow> string \<Rightarrow> Int16 \<times> error option" where
  "Int16_UnmarshalJSON i0 data =
     (let i = i0\<lparr>Int16_set := True\<rparr>
      in if data = NullBytes then (i\<lparr>Int16_Int16 := 0, Int16_Valid := False\<rparr>, None)
         else case json_Unmarshal_int64 data 0 of
                (x, Some err) \<Rightarrow> (i, Some err)
              | (x, None) \<Rightarrow>
                  if 32767 <s x then (i, Some (OverflowError x))
                  else (i\<lparr>Int16_Int16 := ucast x, Int16_Valid := True\<rparr>, None))"

text \<open>
  In \<open>Uint.UnmarshalJSON\<close> the local \<open>i\<close> starts at 0 and is written by the second
  \<open>json.Unmarshal\<close> or by \<open>ParseUint\<close>; \<open>uint(i)\<close> is the identity at 64 bits.
\<close>

definition Uint_UnmarshalJSON :: "Uint \<Rightarrow> string \<Rightarrow> Uint \<times> error option" where
  "Uint_UnmarshalJSON u data =
     (if data = NullBytes then (u\<lparr>Uint_Valid := False, Uint_Uint := 0\<rparr>, None)
      else case json_Unmarshal_interface data of
             Inl err \<Rightarrow> (u, Some err)
           | Inr v \<Rightarrow>
               (let finish = (\<lambda>(i, err).
                      let u1 = u\<lparr>Uint_Uint := i\<rparr>
                      in (u1\<lparr>Uint_Valid := (err = None \<and> Uint_Uint u1 \<noteq> 0)\<rparr>, err))
                in case v of
                     JFloat64 \<Rightarrow> finish (json_Unmarshal_uint64 data 0)
                   | JString str \<Rightarrow>
                       if length str = 0 then (u\<lparr>Uint_Valid := False\<rparr>, None)
                       else (case ParseUint str 64 of
                               (i, err) \<Rightarrow> finish (i, map_option NumError err))
                   | JNil \<Rightarrow> (u\<lparr>Uint_Valid := False\<rparr>, None)
                   | _ \<Rightarrow> finish (0, Some (TypeMismatchError (TypeOf_Name v)))))"

text \<open>
  \<open>Uint64.UnmarshalJSON\<close> decodes straight into the field \<open>u.Uint64\<close>, which therefore
  keeps its old value when the second \<open>json.Unmarshal\<close> fails and takes the value that
  \<open>ParseUint\<close> returns even with an error.
\<close>

definition Uint64_UnmarshalJSON :: "Uint64 \<Rightarrow> string \<Rightarrow> Uint64 \<times> error option" where
  "Uint64_UnmarshalJSON u data =
     (if data = NullBytes then (u\<lparr>Uint64_Uint64 := 0, Uint64_Valid := False\<rparr>, None)
      else case json_Unmarshal_interface data of
             Inl err \<Rightarrow> (u, Some err)
           | Inr v \<Rightarrow>
               (let finish = (\<lambda>(n, err).
                      let u1 = u\<lparr>Uint64_Uint64 := n\<rparr>
                      in (u1\<lparr>Uint64_Valid := (err = None \<and> Uint64_Uint64 u1 \<noteq> 0)\<rparr>, err))
                in case v of
                     JFloat64 \<Rightarrow> finish (json_Unmarshal_uint64 data (Uint64_Uint64 u))
                   | JString str \<Rightarrow>
                       if length str = 0 then (u\<lparr>Uint64_Valid := False\<rparr>, None)
                       else (case ParseUint str 64 of
                               (n, err) \<Rightarrow> finish (n, map_option NumError err))
                   | JNil \<Rightarrow> (u\<lparr>Uint64_Valid := False\<rparr>, None)
                   | _ \<Rightarrow>
                       finish (Uint64_Uint64 u,
                               Some (TypeMismatchError (TypeOf_Name v)))))"

subsection \<open>UnmarshalText\<close>

text \<open>\<open>int16(res)\<close> keeps the low 16 bits (\<open>ucast\<close>); \<open>uint(res)\<close> is the identity at 64 bits.\<close>

definition Int16_UnmarshalText :: "Int16 \<Rightarrow> string \<Rightarrow> Int16 \<times> error option" where
  "Int16_UnmarshalText i0 text =
     (let i = i0\<lparr>Int16_set := True\<rparr>
      in if text = [] then (i\<lparr>Int16_Valid := False\<rparr>, None)
         else case ParseInt text 16 of (res, err) \<Rightarrow>
           let i = i\<lparr>Int16_Valid := (err = None)\<rparr>;
               i = (if Int16_Valid i then i\<lparr>Int16_Int16 := ucast res\<rparr> else i)
           in (i, map_option NumError err))"

definition Uint_UnmarshalText :: "Uint \<Rightarrow> string \<Rightarrow> Uint \<times> error option" where
  "Uint_UnmarshalText u0 text =
     (if text = [] then (u0\<lparr>Uint_Valid := False\<rparr>, None)
      else case ParseUint text 0 of (res, err) \<Rightarrow>
        let u = u0\<lparr>Uint_Valid := (err = None)\<rparr>;
            u = (if Uint_Valid u then u\<lparr>Uint_Uint := res\<rparr> else u)
        in (u, map_option NumError err))"

definition Uint64_UnmarshalText :: "Uint64 \<Rightarrow> string \<Rightarrow> Uint64 \<times> error option" where
  "Uint64_UnmarshalText u0 text =
     (if text = [] then (u0\<lparr>Uint64_Valid := False\<rparr>, None)
      else case ParseUint text 64 of (res, err) \<Rightarrow>
        let u = u0\<lparr>Uint64_Valid := (err = None)\<rparr>;
            u = (if Uint64_Valid u then u\<lparr>Uint64_Uint64 := res\<rparr> else u)
        in (u, map_option NumError err))"

subsection \<open>SetValid, Ptr, IsZero\<close>

definition Int16_SetValid :: "Int16 \<Rightarrow> 16 word \<Rightarrow> Int16" where
  "Int16_SetValid i n = i\<lparr>Int16_Int16 := n, Int16_Valid := True, Int16_set := True\<rparr>"

definition Uint_SetValid :: "Uint \<Rightarrow> 64 word \<Rightarrow> Uint" where
  "Uint_SetValid u n = u\<lparr>Uint_Uint := n, Uint_Valid := True\<rparr>"

definition Uint64_SetValid :: "Uint64 \<Rightarrow> 64 word \<Rightarrow> Uint64" where
  "Uint64_SetValid u n = u\<lparr>Uint64_Uint64 := n, Uint64_Valid := True\<rparr>"

definition Int16_Ptr :: "Int16 \<Rightarrow> 16 word option" where
  "Int16_Ptr i = (if \<not> Int16_Valid i then None else Some (Int16_Int16 i))"

definition Uint_Ptr :: "Uint \<Rightarrow> 64 word option" where
  "Uint_Ptr u = (if \<not> Uint_Valid u then None else Some (Uint_Uint u))"

definition Uint64_Ptr :: "Uint64 \<Rightarrow> 64 word option" where
  "Uint64_Ptr u = (if \<not> Uint64_Valid u then None else Some (Uint64_Uint64 u))"

definition Int16_IsZero :: "Int16 \<Rightarrow> bool" where
  "Int16_IsZero i = (\<not> Int16_Valid i)"

definition Uint_IsZero :: "Uint \<Rightarrow> bool" where
  "Uint_IsZero u = (\<not> Uint_Valid u)"

definition Uint64_IsZero :: "Uint64 \<Rightarrow> bool" where
  "Uint64_IsZero u = (\<not> Uint64_Valid u)"

subsection \<open>Scan and Value\<close>

text \<open>
  The values that cross the \<open>interface{}\<close> parameter of \<open>Scan\<close> and the \<open>driver.Value\<close>
  result of \<open>Value\<close>: nil, \<open>int64\<close>, \<open>string\<close>, \<open>[]byte\<close>, \<open>bool\<close>, and the \<open>uint64\<close> that
  \<open>Uint64.Scan\<close> builds itself. The shapes \<open>float64\<close> and \<open>time.Time\<close> are left out: the
  spec does not say how the converter treats them.
\<close>

datatype go_value =
    VNil
  | VInt64 "64 word"
  | VUint64 "64 word"
  | VString string
  | VBytes string
  | VBool bool

text \<open>
  Modelled from the spec: \<open>convert.ConvertAssign\<close>, of the package \<open>convert\<close> that is not
  among the sources. The spec describes "a generic assign best-effort converter that
  coerces an arbitrary driver-supplied value into a target scalar type",
  \<open>coerce(raw, targetKind) -> (T, error)\<close>, which is "trusted to report errors for
  unconvertible shapes" and would "reject" a negative integer for an unsigned target.
  Here a source that already has the type of the destination is stored as it is; any
  other source is taken through its decimal text, which must be an integer literal in
  the range of the destination. On an error the destination is not written.
\<close>

definition asString :: "go_value \<Rightarrow> string" where
  "asString src =
     (case src of
        VNil \<Rightarrow> ''<nil>''
      | VInt64 i \<Rightarrow> FormatInt i
      | VUint64 u \<Rightarrow> FormatUint u
      | VString s \<Rightarrow> s
      | VBytes b \<Rightarrow> b
      | VBool b \<Rightarrow> (if b then ''true'' else ''false''))"

definition ConvertAssign_int16 :: "go_value \<Rightarrow> error + 16 word" where
  "ConvertAssign_int16 src =
     (case ParseInt (asString src) 16 of
        (i64, None) \<Rightarrow> Inr (ucast i64)
      | (_, Some e) \<Rightarrow> Inl ConversionError)"

definition ConvertAssign_uint :: "go_value \<Rightarrow> error + 64 word" where
  "ConvertAssign_uint src =
     (case ParseUint (asString src) IntSize of
        (u64, None) \<Rightarrow> Inr u64
      | (_, Some e) \<Rightarrow> Inl ConversionError)"

definition ConvertAssign_uint64 :: "go_value \<Rightarrow> error + 64 word" where
  "ConvertAssign_uint64 src =
     (case src of
        VUint64 u \<Rightarrow> Inr u
      | _ \<Rightarrow> (case ParseUint (asString src) 64 of
                (u64, None) \<Rightarrow> Inr u64
              | (_, Some e) \<Rightarrow> Inl ConversionError))"

definition Int16_Scan :: "Int16 \<Rightarrow> go_value \<Rightarrow> Int16 \<times> error option" where
  "Int16_Scan i0 v =
     (if v = VNil
      then (i0\<lparr>Int16_Int16 := 0, Int16_Valid := False, Int16_set := False\<rparr>, None)
      else let i = i0\<lparr>Int16_Valid := True, Int16_set := True\<rparr>
           in case ConvertAssign_int16 v of
                Inl e \<Rightarrow> (i, Some e)
              | Inr n \<Rightarrow> (i\<lparr>Int16_Int16 := n\<rparr>, None))"

definition Uint_Scan :: "Uint \<Rightarrow> go_value \<Rightarrow> Uint \<times> error option" where
  "Uint_Scan u0 v =
     (if v = VNil
      then (u0\<lparr>Uint_Uint := 0, Uint_Valid := False\<rparr>, None)
      else let u = u0\<lparr>Uint_Valid := True\<rparr>
           in case ConvertAssign_uint v of
                Inl e \<Rightarrow> (u, Some e)
              | Inr n \<Rightarrow> (u\<lparr>Uint_Uint := n\<rparr>, None))"

text \<open>
  \<open>Uint64.Scan\<close> hands a negative \<open>int64\<close> to the converter as \<open>uint64(i)\<close>: the same 64
  bits, read unsigned.
\<close>

definition Uint64_Scan :: "Uint64 \<Rightarrow> go_value \<Rightarrow> Uint64 \<times> error option" where
  "Uint64_Scan u0 v =
     (if v = VNil
      then (u0\<lparr>Uint64_Uint64 := 0, Uint64_Valid := False\<rparr>, None)
      else let u = u0\<lparr>Uint64_Valid := True\<rparr>;
               src = (case v of
                        VInt64 i \<Rightarrow> if i <s 0 then VUint64 i else v
                      | _ \<Rightarrow> v)
           in case ConvertAssign_uint64 src of
                Inl e \<Rightarrow> (u, Some e)
              | Inr n \<Rightarrow> (u\<lparr>Uint64_Uint64 := n\<rparr>, None))"

definition Int16_Value :: "Int16 \<Rightarrow> go_value \<times> error option" where
  "Int16_Value i =
     (if \<not> Int16_Valid i then (VNil, None) else (VInt64 (scast (Int16_Int16 i)), None))"

definition Uint_Value :: "Uint \<Rightarrow> go_value \<times> error option" where
  "Uint_Value u =
     (if \<not> Uint_Valid u then (VNil, None) else (VInt64 (Uint_Uint u), None))"

definition Uint64_Value :: "Uint64 \<Rightarrow> go_value \<times> error option" where
  "Uint64_Value u =
     (if \<not> Uint64_Valid u then (VNil, None)
      else if Uint64_Uint64 u \<ge> push_bit 63 1 then (VString (FormatUint (Uint64_Uint64 u)), None)
      else (VInt64 (Uint64_Uint64 u), None))"

subsection \<open>Randomize\<close>

text \<open>
  The argument \<open>nextInt\<close> is the value that the call \<open>nextInt()\<close> returns; the function
  is called once, and only when \<open>shouldBeNull\<close> is false. Go's \<open>%\<close> truncates towards
  zero (\<open>smod\<close>).
\<close>

definition MaxInt16 :: int where
  "MaxInt16 = 32767"

definition Int16_Randomize :: "Int16 \<Rightarrow> 64 word \<Rightarrow> string \<Rightarrow> bool \<Rightarrow> Int16" where
  "Int16_Randomize i nextInt fieldType shouldBeNull =
     (if shouldBeNull then i\<lparr>Int16_Int16 := 0, Int16_Valid := False\<rparr>
      else i\<lparr>Int16_Int16 := word_of_int (sint nextInt smod MaxInt16), Int16_Valid := True\<rparr>)"

definition Uint_Randomize :: "Uint \<Rightarrow> 64 word \<Rightarrow> string \<Rightarrow> bool \<Rightarrow> Uint" where
  "Uint_Randomize u nextInt fieldType shouldBeNull =
     (if shouldBeNull then u\<lparr>Uint_Uint := 0, Uint_Valid := False\<rparr>
      else u\<lparr>Uint_Uint := nextInt, Uint_Valid := True\<rparr>)"

definition Uint64_Randomize :: "Uint64 \<Rightarrow> 64 word \<Rightarrow> string \<Rightarrow> bool \<Rightarrow> Uint64" where
  "Uint64_Randomize u nextInt fieldType shouldBeNull =
     (if shouldBeNull then u\<lparr>Uint64_Uint64 := 0, Uint64_Valid := False\<rparr>
      else u\<lparr>Uint64_Uint64 := nextInt, Uint64_Valid := True\<rparr>)"

subsection \<open>Sequences of operations on an Int16\<close>

text \<open>
  The methods with a pointer receiver, as one datatype, so that the history of an
  instance is a list; the returned error is dropped. The methods with a value receiver
  (\<open>MarshalJSON\<close>, \<open>MarshalText\<close>, \<open>Ptr\<close>, \<open>IsZero\<close>, \<open>IsSet\<close>, \<open>Value\<close>) work on a copy and
  cannot change the instance. \<open>Int16_zero\<close> is the zero value of the struct, the
  instance after default construction.
\<close>

datatype Int16_op =
    OpUnmarshalJSON string
  | OpUnmarshalText string
  | OpSetValid "16 word"
  | OpScan go_value
  | OpRandomize "64 word" string bool

fun Int16_apply :: "Int16 \<Rightarrow> Int16_op \<Rightarrow> Int16" where
  "Int16_apply i (OpUnmarshalJSON data) = fst (Int16_UnmarshalJSON i data)"
| "Int16_apply i (OpUnmarshalText text) = fst (Int16_UnmarshalText i text)"
| "Int16_apply i (OpSetValid n) = Int16_SetValid i n"
| "Int16_apply i (OpScan v) = fst (Int16_Scan i v)"
| "Int16_apply i (OpRandomize nextInt fieldType shouldBeNull) =
     Int16_Randomize i nextInt fieldType shouldBeNull"

definition Int16_run :: "Int16 \<Rightarrow> Int16_op list \<Rightarrow> Int16" where
  "Int16_run i ops = foldl Int16_apply i ops"

definition Int16_zero :: Int16 where
  "Int16_zero = \<lparr>Int16_Int16 = 0, Int16_Valid = False, Int16_set = False\<rparr>"

section \<open>Properties\<close>

subsection \<open>Decimal digits\<close>

lemma lt10_cases: "d < 10 \<Longrightarrow> d \<in> {0, 1, 2, 3, 4, 5, 6, 7, 8, 9::nat}"
  by auto

lemma isDigit_digit_char: "d < 10 \<Longrightarrow> isDigit (digit_char d)"
  by (drule lt10_cases) (auto simp: isDigit_def digit_char_def digits_def)

lemma of_char_digit_char: "d < 10 \<Longrightarrow> of_char (digit_char d) = 48 + d"
  by (drule lt10_cases) (auto simp: digit_char_def digits_def)

lemma formatBits_ne: "formatBits n \<noteq> []"
  by (subst formatBits.simps) simp

lemma formatBits_digits: "c \<in> set (formatBits n) \<Longrightarrow> isDigit c"
proof (induction n rule: formatBits.induct)
  case (1 n)
  show ?case
  proof (cases "n < 10")
    case True
    with 1(2) show ?thesis
      by (subst (asm) formatBits.simps) (simp add: isDigit_digit_char)
  next
    case False
    with 1 show ?thesis
      by (subst (asm) (2) formatBits.simps) (auto simp add: isDigit_digit_char)
  qed
qed

lemma FormatInt_hd: "hd (FormatInt i) = CHR ''-'' \<or> isDigit (hd (FormatInt i))"
  using formatBits_digits [of "hd (formatBits (unat i))" "unat i"] formatBits_ne [of "unat i"]
  by (simp add: FormatInt_def)

lemma FormatUint_hd: "isDigit (hd (FormatUint u))"
  using formatBits_digits [of "hd (formatBits (unat u))" "unat u"] formatBits_ne [of "unat u"]
  by (simp add: FormatUint_def)

lemma NullBytes_not_FormatInt: "NullBytes \<noteq> FormatInt i"
proof
  assume a: "NullBytes = FormatInt i"
  have "hd (FormatInt i) = CHR ''n''"
    unfolding a [symmetric] by (simp add: NullBytes_def)
  with FormatInt_hd [of i] show False by (simp add: isDigit_def)
qed

lemma NullBytes_not_FormatUint: "NullBytes \<noteq> FormatUint u"
proof
  assume a: "NullBytes = FormatUint u"
  have "hd (FormatUint u) = CHR ''n''"
    unfolding a [symmetric] by (simp add: NullBytes_def)
  with FormatUint_hd [of u] show False by (simp add: isDigit_def)
qed

lemma FormatInt_ne: "FormatInt i \<noteq> []"
  by (simp add: FormatInt_def formatBits_ne)

lemma FormatUint_ne: "FormatUint i \<noteq> []"
  by (simp add: FormatUint_def formatBits_ne)

subsection \<open>Encoding an invalid instance\<close>

text \<open>
  C8. For each of the three types, an instance whose \<open>Valid\<close> field is false, whatever
  number it stores, is marshalled to the four bytes \<open>null\<close> by \<open>MarshalJSON\<close> and to the
  empty byte sequence by \<open>MarshalText\<close>, with a nil error; neither result is the decimal
  representation of the stored number.
\<close>

theorem invalid_marshal:
  "(\<not> Int16_Valid i \<longrightarrow>
      Int16_MarshalJSON i = (''null'', None) \<and> Int16_MarshalText i = ([], None)
      \<and> fst (Int16_MarshalJSON i) \<noteq> FormatInt (scast (Int16_Int16 i))
      \<and> fst (Int16_MarshalText i) \<noteq> FormatInt (scast (Int16_Int16 i)))
   \<and> (\<not> Uint_Valid u \<longrightarrow>
      Uint_MarshalJSON u = (''null'', None) \<and> Uint_MarshalText u = ([], None)
      \<and> fst (Uint_MarshalJSON u) \<noteq> FormatUint (Uint_Uint u)
      \<and> fst (Uint_MarshalText u) \<noteq> FormatUint (Uint_Uint u))
   \<and> (\<not> Uint64_Valid w \<longrightarrow>
      Uint64_MarshalJSON w = (''null'', None) \<and> Uint64_MarshalText w = ([], None)
      \<and> fst (Uint64_MarshalJSON w) \<noteq> FormatUint (Uint64_Uint64 w)
      \<and> fst (Uint64_MarshalText w) \<noteq> FormatUint (Uint64_Uint64 w))"
  using NullBytes_not_FormatInt NullBytes_not_FormatUint
    FormatInt_ne [symmetric] FormatUint_ne [symmetric]
  by (simp add: Int16_MarshalJSON_def Int16_MarshalText_def Uint_MarshalJSON_def
      Uint_MarshalText_def Uint64_MarshalJSON_def Uint64_MarshalText_def NullBytes_def)

theorem invalid_marshal_witness:
  "Int16_MarshalJSON \<lparr>Int16_Int16 = 7, Int16_Valid = False, Int16_set = True\<rparr> = (''null'', None)
   \<and> Int16_MarshalText \<lparr>Int16_Int16 = 7, Int16_Valid = False, Int16_set = True\<rparr> = ([], None)
   \<and> Uint_MarshalJSON \<lparr>Uint_Uint = 7, Uint_Valid = False\<rparr> = (''null'', None)
   \<and> Uint_MarshalText \<lparr>Uint_Uint = 7, Uint_Valid = False\<rparr> = ([], None)
   \<and> Uint64_MarshalJSON \<lparr>Uint64_Uint64 = 7, Uint64_Valid = False\<rparr> = (''null'', None)
   \<and> Uint64_MarshalText \<lparr>Uint64_Uint64 = 7, Uint64_Valid = False\<rparr> = ([], None)"
  using invalid_marshal [of "\<lparr>Int16_Int16 = 7, Int16_Valid = False, Int16_set = True\<rparr>"
      "\<lparr>Uint_Uint = 7, Uint_Valid = False\<rparr>" "\<lparr>Uint64_Uint64 = 7, Uint64_Valid = False\<rparr>"]
  by simp

subsection \<open>Scan of nil\<close>

text \<open>
  C7. For each of the three types and every prior state of the instance, \<open>Scan\<close> of the
  nil driver value returns a nil error and leaves the instance with the number 0 and
  \<open>Valid\<close> false (for \<open>Int16\<close> the \<open>set\<close> field is false as well).
\<close>

theorem Scan_nil:
  "Int16_Scan i VNil = (\<lparr>Int16_Int16 = 0, Int16_Valid = False, Int16_set = False\<rparr>, None)
   \<and> Uint_Scan u VNil = (\<lparr>Uint_Uint = 0, Uint_Valid = False\<rparr>, None)
   \<and> Uint64_Scan w VNil = (\<lparr>Uint64_Uint64 = 0, Uint64_Valid = False\<rparr>, None)"
  by (simp add: Int16_Scan_def Uint_Scan_def Uint64_Scan_def)

subsection \<open>Uint64.Value\<close>

text \<open>
  C5. \<open>Uint64.Value\<close> of an invalid instance is the driver's nil; of a valid instance
  with a number below \<open>2^63\<close> it is that number as an \<open>int64\<close> (whose signed reading is the
  number itself); of a valid instance with a number of at least \<open>2^63\<close> it is the string
  of its decimal digits. A valid instance that holds \<open>2^63\<close> gives the string
  \<open>9223372036854775808\<close>.
\<close>

theorem Uint64_Value_cases:
  "(\<not> Uint64_Valid u \<longrightarrow> Uint64_Value u = (VNil, None))
   \<and> (Uint64_Valid u \<and> unat (Uint64_Uint64 u) < 2 ^ 63 \<longrightarrow>
        Uint64_Value u = (VInt64 (Uint64_Uint64 u), None)
        \<and> sint (Uint64_Uint64 u) = int (unat (Uint64_Uint64 u)))
   \<and> (Uint64_Valid u \<and> unat (Uint64_Uint64 u) \<ge> 2 ^ 63 \<longrightarrow>
        Uint64_Value u = (VString (FormatUint (Uint64_Uint64 u)), None))
   \<and> Uint64_Value \<lparr>Uint64_Uint64 = 2 ^ 63, Uint64_Valid = True\<rparr>
        = (VString ''9223372036854775808'', None)"
proof -
  have small: "unat (Uint64_Uint64 u) < 2 ^ 63 \<Longrightarrow> \<not> push_bit 63 1 \<le> Uint64_Uint64 u"
    by (simp add: word_le_nat_alt)
  have big: "unat (Uint64_Uint64 u) \<ge> 2 ^ 63 \<Longrightarrow> push_bit 63 1 \<le> Uint64_Uint64 u"
    by (simp add: word_le_nat_alt)
  have s: "unat (Uint64_Uint64 u) < 2 ^ 63 \<Longrightarrow>
      sint (Uint64_Uint64 u) = int (unat (Uint64_Uint64 u))"
  proof -
    assume "unat (Uint64_Uint64 u) < 2 ^ 63"
    then have "int (unat (Uint64_Uint64 u)) < int (2 ^ 63)"
      by (simp only: of_nat_less_iff)
    then have "uint (Uint64_Uint64 u) < 2 ^ 63"
      by simp
    moreover have "- (2 ^ 63) \<le> uint (Uint64_Uint64 u)"
      by (rule order_trans [of _ 0]) simp_all
    ultimately have "signed_take_bit 63 (uint (Uint64_Uint64 u)) = uint (Uint64_Uint64 u)"
      by (intro signed_take_bit_int_eq_self)
    then show ?thesis by (simp add: sint_uint)
  qed
  have e: "FormatUint (2 ^ 63) = ''9223372036854775808''"
    by (simp add: FormatUint_def formatBits.simps digit_char_def digits_def)
  show ?thesis
    using small big s e by (simp add: Uint64_Value_def)
qed

theorem Uint64_Value_cases_witness:
  "Uint64_Value \<lparr>Uint64_Uint64 = 42, Uint64_Valid = False\<rparr> = (VNil, None)
   \<and> Uint64_Value \<lparr>Uint64_Uint64 = 42, Uint64_Valid = True\<rparr> = (VInt64 42, None)
   \<and> Uint64_Value \<lparr>Uint64_Uint64 = 18446744073709551615, Uint64_Valid = True\<rparr>
       = (VString (FormatUint 18446744073709551615), None)"
  using Uint64_Value_cases [of "\<lparr>Uint64_Uint64 = 42, Uint64_Valid = False\<rparr>"]
    Uint64_Value_cases [of "\<lparr>Uint64_Uint64 = 42, Uint64_Valid = True\<rparr>"]
    Uint64_Value_cases [of "\<lparr>Uint64_Uint64 = 18446744073709551615, Uint64_Valid = True\<rparr>"]
  by simp

subsection \<open>UnmarshalText after a failed parse\<close>

text \<open>
  C10. For each of the three types, when \<open>UnmarshalText\<close> is given a non-empty byte
  sequence that fails to parse (\<open>ParseInt\<close> at 16 bits for \<open>Int16\<close>, \<open>ParseUint\<close> at the
  width of the type for \<open>Uint\<close> and \<open>Uint64\<close>, returns an error, be it a syntax or a range
  error), it returns that error and the stored number is the one the instance held
  before: the result is the prior instance with \<open>Valid\<close> false (and, for \<open>Int16\<close>, with
  \<open>set\<close> true).
\<close>

theorem UnmarshalText_failure_keeps_number:
  "(bs \<noteq> [] \<and> snd (ParseInt bs 16) \<noteq> None \<longrightarrow>
      Int16_UnmarshalText i bs
        = (i\<lparr>Int16_Valid := False, Int16_set := True\<rparr>,
           map_option NumError (snd (ParseInt bs 16)))
      \<and> snd (Int16_UnmarshalText i bs) \<noteq> None
      \<and> Int16_Int16 (fst (Int16_UnmarshalText i bs)) = Int16_Int16 i)
   \<and> (bs \<noteq> [] \<and> snd (ParseUint bs 0) \<noteq> None \<longrightarrow>
      Uint_UnmarshalText u bs
        = (u\<lparr>Uint_Valid := False\<rparr>, map_option NumError (snd (ParseUint bs 0)))
      \<and> snd (Uint_UnmarshalText u bs) \<noteq> None
      \<and> Uint_Uint (fst (Uint_UnmarshalText u bs)) = Uint_Uint u)
   \<and> (bs \<noteq> [] \<and> snd (ParseUint bs 64) \<noteq> None \<longrightarrow>
      Uint64_UnmarshalText w bs
        = (w\<lparr>Uint64_Valid := False\<rparr>, map_option NumError (snd (ParseUint bs 64)))
      \<and> snd (Uint64_UnmarshalText w bs) \<noteq> None
      \<and> Uint64_Uint64 (fst (Uint64_UnmarshalText w bs)) = Uint64_Uint64 w)"
  by (auto simp: Int16_UnmarshalText_def Uint_UnmarshalText_def Uint64_UnmarshalText_def
      Let_def split: prod.splits)

theorem UnmarshalText_failure_keeps_number_witness:
  "''40000'' \<noteq> [] \<and> snd (ParseInt ''40000'' 16) \<noteq> None
   \<and> Int16_UnmarshalText \<lparr>Int16_Int16 = 7, Int16_Valid = True, Int16_set = False\<rparr> ''40000''
     = (\<lparr>Int16_Int16 = 7, Int16_Valid = False, Int16_set = True\<rparr>, Some (NumError ErrRange))
   \<and> ''-1'' \<noteq> [] \<and> snd (ParseUint ''-1'' 0) \<noteq> None
   \<and> Uint_UnmarshalText \<lparr>Uint_Uint = 7, Uint_Valid = True\<rparr> ''-1''
     = (\<lparr>Uint_Uint = 7, Uint_Valid = False\<rparr>, Some (NumError ErrSyntax))
   \<and> ''99999999999999999999'' \<noteq> [] \<and> snd (ParseUint ''99999999999999999999'' 64) \<noteq> None
   \<and> Uint64_UnmarshalText \<lparr>Uint64_Uint64 = 7, Uint64_Valid = True\<rparr> ''99999999999999999999''
     = (\<lparr>Uint64_Uint64 = 7, Uint64_Valid = False\<rparr>, Some (NumError ErrRange))"
proof -
  have a: "ParseInt ''40000'' 16 = (32767, Some ErrRange)"
    by (simp add: ParseInt_def ParseUint_def isDigit_def cutoff10_def)
  have b: "ParseUint ''-1'' 0 = (0, Some ErrSyntax)"
    by (simp add: ParseUint_def isDigit_def IntSize_def)
  have c: "ParseUint ''99999999999999999999'' 64 = (18446744073709551615, Some ErrRange)"
    by (simp add: ParseUint_def isDigit_def cutoff10_def)
  show ?thesis
    using
      UnmarshalText_failure_keeps_number [where bs = "''40000''"
        and i = "\<lparr>Int16_Int16 = 7, Int16_Valid = True, Int16_set = False\<rparr>"]
      UnmarshalText_failure_keeps_number [where bs = "''-1''"
        and u = "\<lparr>Uint_Uint = 7, Uint_Valid = True\<rparr>"]
      UnmarshalText_failure_keeps_number [where bs = "''99999999999999999999''"
        and w = "\<lparr>Uint64_Uint64 = 7, Uint64_Valid = True\<rparr>"]
    by (simp add: a b c)
qed

subsection \<open>Uint64.Scan of a negative int64\<close>

lemma sless0_unat: "(n :: 64 word) <s 0 \<Longrightarrow> int (unat n) = sint n + 2 ^ 64"
proof -
  assume "n <s 0"
  then have neg: "sint n < 0" by (simp add: word_sless_alt)
  have ge: "- (2 ^ 63) \<le> sint n" using sint_ge [of n] by simp
  have "uint n = take_bit 64 (sint n)" using uint_sint [of n] by simp
  also have "\<dots> = (sint n + 2 ^ 64) mod 2 ^ 64" by (simp add: take_bit_eq_mod)
  also have "\<dots> = sint n + 2 ^ 64"
    using neg ge by (intro mod_pos_pos_trivial) simp_all
  finally show ?thesis by simp
qed

text \<open>
  C6. For every negative \<open>int64\<close> driver value \<open>n\<close> and every prior state, \<open>Uint64.Scan\<close>
  returns a nil error and leaves the instance valid with the same 64 bits read as an
  unsigned number, that is \<open>n + 2^64\<close>; \<open>Scan\<close> of \<open>-1\<close> stores 18446744073709551615.
\<close>

theorem Uint64_Scan_negative:
  "(n <s 0 \<longrightarrow>
      Uint64_Scan u (VInt64 n) = (\<lparr>Uint64_Uint64 = n, Uint64_Valid = True\<rparr>, None)
      \<and> int (unat n) = sint n + 2 ^ 64)
   \<and> Uint64_Scan u (VInt64 (- 1))
      = (\<lparr>Uint64_Uint64 = 18446744073709551615, Uint64_Valid = True\<rparr>, None)"
  using sless0_unat [of n]
  by (simp add: Uint64_Scan_def ConvertAssign_uint64_def)

theorem Uint64_Scan_negative_witness:
  "(- 5 :: 64 word) <s 0
   \<and> Uint64_Scan \<lparr>Uint64_Uint64 = 3, Uint64_Valid = False\<rparr> (VInt64 (- 5))
     = (\<lparr>Uint64_Uint64 = 18446744073709551611, Uint64_Valid = True\<rparr>, None)"
proof -
  have h: "(- 5 :: 64 word) <s 0"
    by (simp add: word_sless_alt)
  have e: "(- 5 :: 64 word) = 18446744073709551611"
    by simp
  show ?thesis
    using h Uint64_Scan_negative [of "- 5" "\<lparr>Uint64_Uint64 = 3, Uint64_Valid = False\<rparr>"]
    unfolding e by simp
qed

subsection \<open>UnmarshalJSON on concrete literals\<close>

lemmas scanner_defs =
  checkValid_def scanner_eof_def scanner_step_def scanner_reset_def scanner_error_def
  pushParseState_def popParseState_def maxNestingDepth_def
  do_stateEndTop_def do_stateEndValue_def do_stateBeginValue_def do_stateBeginValueOrEmpty_def
  do_stateBeginString_def do_stateBeginStringOrEmpty_def do_stateInString_def
  do_stateInStringEsc_def do_hex_def do_state0_def do_state1_def do_stateNeg_def
  do_stateDot_def do_stateDot0_def do_stateESign_def do_stateE_def do_stateE0_def
  do_letter_def isSpace_def isDigit_def isHex_def

lemmas decode_defs =
  json_Unmarshal_int64_def json_Unmarshal_uint64_def json_Unmarshal_interface_def
  json_type_error_def isNumberChar_def number_literals_def ParseFloat_ErrRange_def
  number_mantissa_exp_def digits_value_def float64_limit_def
  ParseInt_def ParseUint_def cutoff10_def NullBytes_def

text \<open>
  C3. Whatever the prior state, \<open>UnmarshalJSON\<close> of the literal \<open>0\<close> leaves a \<open>Uint\<close> and a
  \<open>Uint64\<close> invalid (number 0, \<open>Valid\<close> false) and an \<open>Int16\<close> valid with the number 0;
  all three return a nil error.
\<close>

theorem zero_literal:
  "Uint_UnmarshalJSON u ''0'' = (\<lparr>Uint_Uint = 0, Uint_Valid = False\<rparr>, None)
   \<and> Uint64_UnmarshalJSON w ''0'' = (\<lparr>Uint64_Uint64 = 0, Uint64_Valid = False\<rparr>, None)
   \<and> Int16_UnmarshalJSON i ''0''
       = (\<lparr>Int16_Int16 = 0, Int16_Valid = True, Int16_set = True\<rparr>, None)"
proof -
  have v: "checkValid ''0''"
    by (simp add: scanner_defs)
  have f: "json_Unmarshal_interface ''0'' = Inr JFloat64"
    by (simp add: v decode_defs isDigit_def isSpace_def)
  have a: "json_Unmarshal_uint64 ''0'' x = (0, None)" for x
    by (simp add: v decode_defs isDigit_def isSpace_def)
  have b: "json_Unmarshal_int64 ''0'' x = (0, None)" for x
    by (simp add: v decode_defs isDigit_def isSpace_def)
  show ?thesis
    by (simp add: Uint_UnmarshalJSON_def Uint64_UnmarshalJSON_def Int16_UnmarshalJSON_def
        f a b NullBytes_def word_sless_alt)
qed

text \<open>
  C2, at the literals \<open>-40000\<close> and \<open>-32769\<close>, both below the range of \<open>int16\<close>:
  \<open>Int16.UnmarshalJSON\<close> returns a nil error and stores the low 16 bits, 25536 and 32767,
  in a valid instance. The code compares the parsed value with \<open>math.MaxInt16\<close> only.
\<close>

theorem Int16_UnmarshalJSON_below_range:
  "Int16_UnmarshalJSON i ''-40000''
     = (i\<lparr>Int16_Int16 := 25536, Int16_Valid := True, Int16_set := True\<rparr>, None)
   \<and> Int16_UnmarshalJSON i ''-32769''
     = (i\<lparr>Int16_Int16 := 32767, Int16_Valid := True, Int16_set := True\<rparr>, None)"
proof -
  have v: "checkValid ''-40000''" "checkValid ''-32769''"
    by (simp_all add: scanner_defs)
  have b: "json_Unmarshal_int64 ''-40000'' 0 = (- 40000, None)"
    "json_Unmarshal_int64 ''-32769'' 0 = (- 32769, None)"
    by (simp_all add: v decode_defs isDigit_def isSpace_def)
  have c: "\<not> (32767 <s (- 40000 :: 64 word))" "\<not> (32767 <s (- 32769 :: 64 word))"
    by (simp_all add: word_sless_alt)
  have d: "(ucast (- 40000 :: 64 word) :: 16 word) = 25536"
    "(ucast (- 32769 :: 64 word) :: 16 word) = 32767"
    by simp_all
  show ?thesis
    by (simp add: Int16_UnmarshalJSON_def b c d NullBytes_def)
qed

text \<open>
  C4, at a valid prior instance that holds 7: \<open>Int16.UnmarshalJSON\<close> of \<open>40000\<close> returns the
  overflow error, and \<open>UnmarshalJSON\<close> of the bytes \<open>x\<close>, which are not JSON, returns the
  syntax error for each of the three types; in every case the instance still holds 7
  with \<open>Valid\<close> true.
\<close>

theorem UnmarshalJSON_error_keeps_Valid:
  "Int16_UnmarshalJSON \<lparr>Int16_Int16 = 7, Int16_Valid = True, Int16_set = False\<rparr> ''40000''
     = (\<lparr>Int16_Int16 = 7, Int16_Valid = True, Int16_set = True\<rparr>, Some (OverflowError 40000))
   \<and> Int16_UnmarshalJSON \<lparr>Int16_Int16 = 7, Int16_Valid = True, Int16_set = False\<rparr> ''x''
     = (\<lparr>Int16_Int16 = 7, Int16_Valid = True, Int16_set = True\<rparr>, Some SyntaxError)
   \<and> Uint_UnmarshalJSON \<lparr>Uint_Uint = 7, Uint_Valid = True\<rparr> ''x''
     = (\<lparr>Uint_Uint = 7, Uint_Valid = True\<rparr>, Some SyntaxError)
   \<and> Uint64_UnmarshalJSON \<lparr>Uint64_Uint64 = 7, Uint64_Valid = True\<rparr> ''x''
     = (\<lparr>Uint64_Uint64 = 7, Uint64_Valid = True\<rparr>, Some SyntaxError)"
proof -
  have v: "checkValid ''40000''"
    by (simp add: scanner_defs)
  have b: "json_Unmarshal_int64 ''40000'' 0 = (40000, None)"
    by (simp add: v decode_defs isDigit_def isSpace_def)
  have c: "32767 <s (40000 :: 64 word)"
    by (simp add: word_sless_alt)
  have x: "\<not> checkValid ''x''"
    by (simp add: scanner_defs)
  have xi: "json_Unmarshal_int64 ''x'' 0 = (0, Some SyntaxError)"
    by (simp add: json_Unmarshal_int64_def x)
  have xf: "json_Unmarshal_interface ''x'' = Inl SyntaxError"
    by (simp add: json_Unmarshal_interface_def x)
  show ?thesis
    by (simp add: Int16_UnmarshalJSON_def Uint_UnmarshalJSON_def Uint64_UnmarshalJSON_def
        b c xi xf NullBytes_def)
qed

subsection \<open>The set flag of Int16\<close>

lemma Int16_apply_set:
  "Int16_set (Int16_apply i op) =
     (case op of
        OpScan v \<Rightarrow> v \<noteq> VNil
      | OpRandomize nextInt fieldType shouldBeNull \<Rightarrow> Int16_set i
      | _ \<Rightarrow> True)"
proof (cases op)
  case (OpUnmarshalJSON data)
  then show ?thesis
    by (simp add: Int16_UnmarshalJSON_def Let_def split: prod.splits option.splits)
next
  case (OpUnmarshalText t)
  then show ?thesis
    by (simp add: Int16_UnmarshalText_def Let_def split: prod.splits)
next
  case (OpSetValid n)
  then show ?thesis by (simp add: Int16_SetValid_def)
next
  case (OpScan v)
  then show ?thesis by (simp add: Int16_Scan_def Let_def split: sum.splits)
next
  case (OpRandomize nextInt fieldType shouldBeNull)
  then show ?thesis by (simp add: Int16_Randomize_def)
qed

lemma Int16_run_set:
  "Int16_set i \<Longrightarrow> OpScan VNil \<notin> set ops \<Longrightarrow> Int16_set (Int16_run i ops)"
  unfolding Int16_run_def
proof (induction ops arbitrary: i)
  case Nil
  then show ?case by simp
next
  case (Cons op ops)
  from Cons.prems have "Int16_set (Int16_apply i op)"
    by (cases op) (auto simp: Int16_apply_set simp del: Int16_apply.simps)
  with Cons show ?case by simp
qed

text \<open>
  C9, as the code has it. \<open>IsSet\<close> returns the field \<open>set\<close>, which is false on the
  instance of default construction. After \<open>UnmarshalJSON\<close>, \<open>UnmarshalText\<close>, \<open>SetValid\<close>
  and \<open>Scan\<close> of a value that is not nil it is true, and after \<open>Scan\<close> of nil it is false.
  \<open>Int16From\<close> and \<open>Int16FromPtr\<close> construct an instance with the flag true, \<open>NewInt16\<close>
  one with the flag it is given. Once the flag is true, it stays true under every
  operation (\<open>Randomize\<close> included), and every sequence of operations, other than \<open>Scan\<close>
  of nil.
\<close>

theorem IsSet_after_operations:
  "\<not> Int16_IsSet Int16_zero
   \<and> (case op of
        OpRandomize nextInt fieldType shouldBeNull \<Rightarrow> True
      | _ \<Rightarrow> Int16_IsSet (Int16_apply i op) = (op \<noteq> OpScan VNil))
   \<and> Int16_IsSet (Int16From v) \<and> Int16_IsSet (Int16FromPtr p)
   \<and> Int16_IsSet (NewInt16 v valid st) = st
   \<and> (Int16_IsSet i \<and> op \<noteq> OpScan VNil \<longrightarrow> Int16_IsSet (Int16_apply i op))
   \<and> (Int16_IsSet i \<and> OpScan VNil \<notin> set ops \<longrightarrow> Int16_IsSet (Int16_run i ops))"
proof -
  have z: "\<not> Int16_IsSet Int16_zero"
    by (simp add: Int16_IsSet_def Int16_zero_def)
  have a: "case op of
        OpRandomize nextInt fieldType shouldBeNull \<Rightarrow> True
      | _ \<Rightarrow> Int16_IsSet (Int16_apply i op) = (op \<noteq> OpScan VNil)"
    unfolding Int16_IsSet_def Int16_apply_set by (cases op) simp_all
  have b: "Int16_IsSet (Int16From v) \<and> Int16_IsSet (Int16FromPtr p)
      \<and> Int16_IsSet (NewInt16 v valid st) = st"
    by (simp add: Int16_IsSet_def Int16From_def Int16FromPtr_def NewInt16_def
        split: option.splits)
  have c: "Int16_IsSet i \<and> op \<noteq> OpScan VNil \<longrightarrow> Int16_IsSet (Int16_apply i op)"
    unfolding Int16_IsSet_def Int16_apply_set by (cases op) auto
  have d: "Int16_IsSet i \<and> OpScan VNil \<notin> set ops \<longrightarrow> Int16_IsSet (Int16_run i ops)"
    unfolding Int16_IsSet_def using Int16_run_set by blast
  from z a b c d show ?thesis by blast
qed

theorem IsSet_after_operations_witness:
  "Int16_IsSet (Int16From 3) \<and> OpSetValid 4 \<noteq> OpScan VNil
   \<and> OpScan VNil \<notin> set [OpRandomize 9 [] True, OpUnmarshalText ''12'']
   \<and> Int16_IsSet (Int16_apply (Int16From 3) (OpSetValid 4))
   \<and> Int16_IsSet (Int16_run (Int16From 3) [OpRandomize 9 [] True, OpUnmarshalText ''12''])"
proof -
  have h: "Int16_IsSet (Int16From 3)"
    by (simp add: Int16_IsSet_def Int16From_def NewInt16_def)
  have n: "OpSetValid 4 \<noteq> OpScan VNil"
    "OpScan VNil \<notin> set [OpRandomize 9 [] True, OpUnmarshalText ''12'']"
    by simp_all
  show ?thesis
    using h n
      IsSet_after_operations [where i = "Int16From 3" and op = "OpSetValid 4"
        and ops = "[OpRandomize 9 [] True, OpUnmarshalText ''12'']"]
    by blast
qed

text \<open>
  C9 as stated fails: on the instance of default construction \<open>Randomize\<close> stores a
  number and \<open>Scan\<close> of nil runs, and \<open>NewInt16\<close> constructs an instance, yet \<open>IsSet\<close>
  is false afterwards.
\<close>

theorem IsSet_false_after_touch:
  "Int16_run Int16_zero [OpRandomize 5 [] False]
     = \<lparr>Int16_Int16 = 5, Int16_Valid = True, Int16_set = False\<rparr>
   \<and> \<not> Int16_IsSet (Int16_run Int16_zero [OpRandomize 5 [] False])
   \<and> \<not> Int16_IsSet (Int16_run Int16_zero [OpScan VNil])
   \<and> \<not> Int16_IsSet (NewInt16 5 True False)"
  by (simp add: Int16_run_def Int16_zero_def Int16_Randomize_def Int16_Scan_def
      Int16_IsSet_def NewInt16_def MaxInt16_def signed_modulo_int_def signed_divide_int_def)

subsection \<open>ParseUint and ParseInt read back what FormatUint and FormatInt write\<close>

lemma ParseUint_loop_snoc:
  "ParseUint_loop mx a (xs @ [c]) =
     (case ParseUint_loop mx a xs of
        (v, None) \<Rightarrow> ParseUint_loop mx v [c]
      | (v, Some e) \<Rightarrow> (v, Some e))"
  by (induction xs arbitrary: a) (simp_all add: Let_def)

lemma unat_of_nat64: "n < 2 ^ 64 \<Longrightarrow> unat (of_nat n :: 64 word) = n"
  by (simp add: unat_of_nat take_bit_nat_eq_self)

lemma ParseUint_loop_digit:
  assumes n: "n \<le> unat mx" and d: "d < 10" and nd: "n = 10 * q + d"
  shows "ParseUint_loop mx (of_nat q) [digit_char d] = (of_nat n, None)"
proof -
  have mx: "unat mx < 2 ^ 64"
    using unsigned_less [of mx] by simp
  have n64: "n < 2 ^ 64" using n mx by simp
  have q64: "q < 2 ^ 64" using n64 nd by simp
  have q10: "10 * q < 2 ^ 64" using n64 nd by simp
  have qc: "q < 1844674407370955162" using n64 nd by simp
  have u10: "unat (of_nat q * 10 :: 64 word) = 10 * q"
    using q10 unat_of_nat64 [of "10 * q"] by (simp add: mult.commute)
  have e: "(of_nat q * 10 + of_nat d :: 64 word) = of_nat n"
    by (simp add: nd mult.commute)
  have un: "unat (of_nat n :: 64 word) = n"
    using n64 by (rule unat_of_nat64)
  have c1: "\<not> cutoff10 \<le> (of_nat q :: 64 word)"
    using qc q64 by (simp add: cutoff10_def word_le_nat_alt unat_of_nat64)
  have c2: "\<not> (of_nat n :: 64 word) < of_nat q * 10"
    using u10 un nd by (simp add: word_less_nat_alt)
  have c3: "\<not> mx < (of_nat n :: 64 word)"
    using un n by (simp add: word_less_nat_alt)
  show ?thesis
    using c1 c2 c3 d
    by (simp add: isDigit_digit_char of_char_digit_char Let_def e)
qed

lemma ParseUint_loop_formatBits:
  "n \<le> unat mx \<Longrightarrow> ParseUint_loop mx 0 (formatBits n) = (of_nat n, None)"
proof (induction n rule: formatBits.induct)
  case (1 n)
  show ?case
  proof (cases "n < 10")
    case True
    then have f: "formatBits n = [digit_char n]"
      by (subst formatBits.simps) simp
    show ?thesis
      using ParseUint_loop_digit [of n mx n 0] True "1.prems" by (simp add: f)
  next
    case False
    then have f: "formatBits n = formatBits (n div 10) @ [digit_char (n mod 10)]"
      by (subst formatBits.simps) simp
    have "n div 10 \<le> unat mx" using "1.prems" by simp
    with "1.IH" False have ih: "ParseUint_loop mx 0 (formatBits (n div 10)) = (of_nat (n div 10), None)"
      by simp
    show ?thesis
      using ParseUint_loop_digit [of n mx "n mod 10" "n div 10"] "1.prems"
      by (simp add: f ParseUint_loop_snoc ih)
  qed
qed

lemma ParseUint_FormatUint: "ParseUint (FormatUint x) 64 = (x, None)"
proof -
  have "unat x < 2 ^ 64"
    using unsigned_less [of x] by simp
  then have "unat x \<le> unat (18446744073709551615 :: 64 word)"
    by simp
  then have "ParseUint_loop 18446744073709551615 0 (formatBits (unat x)) = (of_nat (unat x), None)"
    by (rule ParseUint_loop_formatBits)
  then show ?thesis
    by (simp add: ParseUint_def FormatUint_def formatBits_ne)
qed

lemma ParseUint_FormatUint_0: "ParseUint (FormatUint x) 0 = (x, None)"
  using ParseUint_FormatUint [of x] by (simp add: ParseUint_def IntSize_def FormatUint_ne)

lemma sint_nonneg_unat: "0 \<le> sint (w :: 64 word) \<Longrightarrow> int (unat w) = sint w"
proof -
  assume nn: "0 \<le> sint w"
  have lt: "sint w < 2 ^ 64"
    using sint_lt [of w] by simp
  have "uint w = take_bit 64 (sint w)"
    using uint_sint [of w] by simp
  also have "\<dots> = sint w"
    using nn lt by (simp add: take_bit_int_eq_self)
  finally show ?thesis by simp
qed

lemma sint_neg_unat_minus: "sint (w :: 64 word) < 0 \<Longrightarrow> int (unat (- w)) = - sint w"
proof -
  assume neg: "sint w < 0"
  then have "w <s 0" by (simp add: word_sless_alt)
  then have u: "uint w = sint w + 2 ^ 64"
    using sless0_unat [of w] by simp
  have ge: "- (2 ^ 63) \<le> sint w" using sint_ge [of w] by simp
  have "uint (- w) = (- uint w) mod 2 ^ 64"
    using uint_word_ariths(4) [of w] by simp
  also have "\<dots> = (- sint w + - 1 * 2 ^ 64) mod 2 ^ 64"
    by (simp add: u)
  also have "\<dots> = (- sint w) mod 2 ^ 64"
    by (rule mod_mult_self1)
  also have "\<dots> = - sint w"
    using neg ge by (intro mod_pos_pos_trivial) simp_all
  finally show ?thesis by simp
qed

lemma FormatUint_hd_not_sign:
  "hd (FormatUint x) \<noteq> CHR ''-'' \<and> hd (FormatUint x) \<noteq> CHR ''+''"
  using FormatUint_hd [of x] by (auto simp: isDigit_def)

lemma ParseInt_FormatInt_aux:
  assumes bits: "bits \<noteq> 0"
    and k: "unat (push_bit (bits - 1) 1 :: 64 word) = k"
    and lo: "- int k \<le> sint w" and hi: "sint w < int k"
  shows "ParseInt (FormatInt w) bits = (w, None)"
proof (cases "w <s 0")
  case True
  then have neg: "sint w < 0" by (simp add: word_sless_alt)
  have f: "FormatInt w = CHR ''-'' # FormatUint (- w)"
    using True by (simp add: FormatInt_def FormatUint_def)
  have m: "int (unat (- w)) = - sint w"
    using neg by (rule sint_neg_unat_minus)
  have "int (unat (- w)) \<le> int k"
    unfolding m using lo by linarith
  then have le: "unat (- w) \<le> k"
    by (simp only: of_nat_le_iff)
  have c: "\<not> (push_bit (bits - 1) 1 :: 64 word) < - w"
    unfolding word_less_nat_alt k using le by simp
  have p: "ParseUint (tl (FormatInt w)) 64 = (- w, None)"
    unfolding f by (simp add: ParseUint_FormatUint)
  have h: "FormatInt w \<noteq> []" "hd (FormatInt w) = CHR ''-''"
    unfolding f by simp_all
  show ?thesis
    unfolding ParseInt_def using bits c by (simp add: h p)
next
  case False
  then have nn: "0 \<le> sint w" by (simp add: word_sless_alt)
  have f: "FormatInt w = FormatUint w"
    using False by (simp add: FormatInt_def FormatUint_def)
  have m: "int (unat w) = sint w"
    using nn by (rule sint_nonneg_unat)
  have "int (unat w) < int k"
    unfolding m using hi by linarith
  then have lt: "unat w < k"
    by (simp only: of_nat_less_iff)
  have c: "\<not> (push_bit (bits - 1) 1 :: 64 word) \<le> w"
    unfolding word_le_nat_alt k using lt by simp
  have p: "ParseUint (FormatInt w) 64 = (w, None)"
    unfolding f by (rule ParseUint_FormatUint)
  have h: "FormatInt w \<noteq> []" "hd (FormatInt w) \<noteq> CHR ''-''" "hd (FormatInt w) \<noteq> CHR ''+''"
    unfolding f using FormatUint_hd_not_sign [of w] by (simp_all add: FormatUint_ne)
  show ?thesis
    unfolding ParseInt_def using bits c by (simp add: h p)
qed

lemma ParseInt_FormatInt_64: "ParseInt (FormatInt w) 64 = (w, None)"
proof (rule ParseInt_FormatInt_aux [where k = "2 ^ 63"])
  show "(64::nat) \<noteq> 0" by simp
  show "unat (push_bit (64 - 1) 1 :: 64 word) = 2 ^ 63" by simp
  show "- int (2 ^ 63) \<le> sint w" using sint_ge [of w] by simp
  show "sint w < int (2 ^ 63)" using sint_lt [of w] by simp
qed

lemma ParseInt_FormatInt_16:
  "ParseInt (FormatInt (scast (v :: 16 word))) 16 = (scast v, None)"
proof (rule ParseInt_FormatInt_aux [where k = "2 ^ 15"])
  have s: "sint (scast v :: 64 word) = sint v"
    by (rule sint_up_scast) (simp add: is_up)
  show "(16::nat) \<noteq> 0" by simp
  show "unat (push_bit (16 - 1) 1 :: 64 word) = 2 ^ 15" by simp
  show "- int (2 ^ 15) \<le> sint (scast v :: 64 word)"
    unfolding s using sint_ge [of v] by simp
  show "sint (scast v :: 64 word) < int (2 ^ 15)"
    unfolding s using sint_lt [of v] by simp
qed

lemma ucast_scast_16: "(ucast (scast (v :: 16 word) :: 64 word) :: 16 word) = v"
proof -
  have "(ucast :: 64 word \<Rightarrow> 16 word) = scast"
    by (rule down_cast_same) (simp add: is_down)
  then show ?thesis
    by (simp add: scast_up_scast_id is_up)
qed

lemma scast_16_not_above: "\<not> 32767 <s (scast (v :: 16 word) :: 64 word)"
proof -
  have s: "sint (scast v :: 64 word) = sint v"
    by (rule sint_up_scast) (simp add: is_up)
  show ?thesis
    unfolding word_sless_alt s using sint_lt [of v] by simp
qed

subsection \<open>The scanner and the decoder on decimal literals\<close>

lemma formatBits_0: "formatBits 0 = ''0''"
  by (subst formatBits.simps) (simp add: digit_char_def digits_def)

lemma digit_char_nonzero: "0 < d \<Longrightarrow> d < 10 \<Longrightarrow> digit_char d \<noteq> CHR ''0''"
  by (drule lt10_cases) (auto simp: digit_char_def digits_def)

lemma formatBits_hd_nonzero: "0 < n \<Longrightarrow> hd (formatBits n) \<noteq> CHR ''0''"
proof (induction n rule: formatBits.induct)
  case (1 n)
  show ?case
  proof (cases "n < 10")
    case True
    with "1.prems" show ?thesis
      by (subst formatBits.simps) (simp add: digit_char_nonzero)
  next
    case False
    then have "0 < n div 10" by simp
    with "1.IH" False have "hd (formatBits (n div 10)) \<noteq> CHR ''0''" by simp
    with False show ?thesis
      by (subst formatBits.simps) (simp add: formatBits_ne)
  qed
qed

lemma digits_value_snoc: "digits_value (xs @ [c]) = 10 * digits_value xs + (of_char c - 48)"
  by (simp add: digits_value_def)

lemma digits_value_formatBits: "digits_value (formatBits n) = n"
proof (induction n rule: formatBits.induct)
  case (1 n)
  show ?case
  proof (cases "n < 10")
    case True
    then show ?thesis
      by (subst formatBits.simps) (simp add: digits_value_def of_char_digit_char)
  next
    case False
    with "1.IH" have "digits_value (formatBits (n div 10)) = n div 10" by simp
    with False show ?thesis
      by (subst formatBits.simps) (simp add: digits_value_snoc of_char_digit_char)
  qed
qed

lemma isDigit_not_special:
  "isDigit c \<Longrightarrow>
     \<not> isSpace c \<and> c \<noteq> CHR ''{'' \<and> c \<noteq> CHR ''['' \<and> c \<noteq> CHR 0x22 \<and> c \<noteq> CHR ''-''
     \<and> c \<noteq> CHR ''t'' \<and> c \<noteq> CHR ''f'' \<and> c \<noteq> CHR ''n'' \<and> c \<noteq> CHR ''.''
     \<and> c \<noteq> CHR ''e'' \<and> c \<noteq> CHR ''E'' \<and> c \<noteq> CHR ''+''"
  by (auto simp: isDigit_def isSpace_def)

lemma step_reset_digit:
  "isDigit c \<Longrightarrow>
     scanner_step scanner_reset c = in_state (if c = CHR ''0'' then state0 else state1)"
  using isDigit_not_special [of c]
  by (simp add: scanner_step_def scanner_reset_def do_stateBeginValue_def in_state_def)

lemma step_reset_minus: "scanner_step scanner_reset CHR ''-'' = in_state stateNeg"
  by (simp add: scanner_step_def scanner_reset_def do_stateBeginValue_def in_state_def
      isSpace_def)

lemma step_neg_digit:
  "isDigit c \<Longrightarrow>
     scanner_step (in_state stateNeg) c = in_state (if c = CHR ''0'' then state0 else state1)"
  by (simp add: scanner_step_def do_stateNeg_def in_state_def)

lemma step_state1_digit: "isDigit c \<Longrightarrow> scanner_step (in_state state1) c = in_state state1"
  by (simp add: scanner_step_def do_state1_def in_state_def)

lemma steps_state1_digits:
  "\<forall>c \<in> set ds. isDigit c \<Longrightarrow> foldl scanner_step (in_state state1) ds = in_state state1"
  by (induction ds) (simp_all add: step_state1_digit)

lemma eof_state0: "scanner_eof (in_state state0)"
  by (simp add: scanner_eof_def in_state_def scanner_step_def do_state0_def
      do_stateEndValue_def do_stateEndTop_def isSpace_def)

lemma eof_state1: "scanner_eof (in_state state1)"
  by (simp add: scanner_eof_def in_state_def scanner_step_def do_state1_def do_state0_def
      do_stateEndValue_def do_stateEndTop_def isSpace_def isDigit_def)

lemma formatBits_shape:
  "0 < n \<Longrightarrow> \<exists>d ds. formatBits n = d # ds \<and> isDigit d \<and> d \<noteq> CHR ''0''
     \<and> (\<forall>c \<in> set ds. isDigit c)"
proof -
  assume n: "0 < n"
  obtain d ds where f: "formatBits n = d # ds"
    using formatBits_ne [of n] by (cases "formatBits n") auto
  have "isDigit d" "\<forall>c \<in> set ds. isDigit c"
    using formatBits_digits [of _ n] by (simp_all add: f)
  moreover have "d \<noteq> CHR ''0''"
    using formatBits_hd_nonzero [OF n] by (simp add: f)
  ultimately show ?thesis using f by blast
qed

lemma checkValid_formatBits: "checkValid (formatBits n)"
proof (cases "n = 0")
  case True
  then show ?thesis
    by (simp add: formatBits_0 checkValid_def step_reset_digit isDigit_def eof_state0)
next
  case False
  then obtain d ds where f: "formatBits n = d # ds" and d: "isDigit d" "d \<noteq> CHR ''0''"
    and ds: "\<forall>c \<in> set ds. isDigit c"
    using formatBits_shape [of n] by auto
  show ?thesis
    by (simp add: f checkValid_def step_reset_digit d steps_state1_digits ds eof_state1)
qed

lemma checkValid_minus_formatBits: "0 < n \<Longrightarrow> checkValid (CHR ''-'' # formatBits n)"
proof -
  assume "0 < n"
  then obtain d ds where f: "formatBits n = d # ds" and d: "isDigit d" "d \<noteq> CHR ''0''"
    and ds: "\<forall>c \<in> set ds. isDigit c"
    using formatBits_shape [of n] by auto
  show ?thesis
    by (simp add: f checkValid_def step_reset_minus step_neg_digit d steps_state1_digits ds
        eof_state1)
qed

lemma formatBits_item:
  "dropWhile isSpace (formatBits n) = formatBits n
   \<and> takeWhile isNumberChar (formatBits n) = formatBits n
   \<and> takeWhile isDigit (formatBits n) = formatBits n
   \<and> dropWhile isDigit (formatBits n) = []
   \<and> isDigit (hd (formatBits n))"
proof -
  obtain d ds where f: "formatBits n = d # ds"
    using formatBits_ne [of n] by (cases "formatBits n") auto
  have all: "\<forall>c \<in> set (formatBits n). isDigit c"
    using formatBits_digits [of _ n] by blast
  then have d: "isDigit d" by (simp add: f)
  have "\<not> isSpace d" using isDigit_not_special [OF d] by simp
  then have "dropWhile isSpace (formatBits n) = formatBits n"
    by (simp add: f)
  moreover have "takeWhile isNumberChar (formatBits n) = formatBits n"
    using all by (simp add: takeWhile_eq_all_conv isNumberChar_def)
  moreover have "takeWhile isDigit (formatBits n) = formatBits n"
    using all by (simp add: takeWhile_eq_all_conv)
  moreover have "dropWhile isDigit (formatBits n) = []"
    using all by simp
  ultimately show ?thesis using d by (simp add: f)
qed

lemma number_literals_from_InNumber:
  "\<forall>c \<in> set ds. isNumberChar c \<Longrightarrow> number_literals_from InNumber cur ds = [rev cur @ ds]"
  by (induction ds arbitrary: cur) simp_all

lemma number_literals_formatBits: "number_literals (formatBits n) = [formatBits n]"
proof -
  obtain d ds where f: "formatBits n = d # ds"
    using formatBits_ne [of n] by (cases "formatBits n") auto
  have all: "\<forall>c \<in> set (formatBits n). isDigit c"
    using formatBits_digits [of _ n] by blast
  then have d: "isDigit d" and ds: "\<forall>c \<in> set ds. isNumberChar c"
    by (simp_all add: f isNumberChar_def)
  show ?thesis
    using isDigit_not_special [OF d] d
    by (simp add: f number_literals_def number_literals_from_InNumber [OF ds])
qed

lemma float64_limit_above: "2 ^ 64 \<le> float64_limit"
  by (simp add: float64_limit_def)

lemma not_ErrRange_formatBits: "n < 2 ^ 64 \<Longrightarrow> \<not> ParseFloat_ErrRange (formatBits n)"
proof -
  assume n: "n < 2 ^ 64"
  have h: "hd (formatBits n) \<noteq> CHR ''-''"
    using formatBits_item [of n] isDigit_not_special [of "hd (formatBits n)"] by simp
  have all: "\<forall>c \<in> set (formatBits n). isDigit c"
    using formatBits_digits [of _ n] by blast
  have "number_mantissa_exp (formatBits n) = (n, 0)"
    using h all
    by (simp add: number_mantissa_exp_def Let_def formatBits_item digits_value_formatBits)
  then show ?thesis
    using n float64_limit_above by (simp add: ParseFloat_ErrRange_def)
qed

lemma json_Unmarshal_interface_FormatUint:
  "json_Unmarshal_interface (FormatUint x) = Inr JFloat64"
proof -
  have n: "unat x < 2 ^ 64"
    using unsigned_less [of x] by simp
  have d: "isDigit (hd (formatBits (unat x)))"
    using formatBits_item [of "unat x"] by simp
  show ?thesis
    using isDigit_not_special [OF d] not_ErrRange_formatBits [OF n]
    by (simp add: json_Unmarshal_interface_def FormatUint_def checkValid_formatBits
        number_literals_formatBits formatBits_item)
qed

lemma json_Unmarshal_uint64_FormatUint:
  "json_Unmarshal_uint64 (FormatUint x) y = (x, None)"
proof -
  have d: "isDigit (hd (FormatUint x))"
    by (rule FormatUint_hd)
  have i: "dropWhile isSpace (FormatUint x) = FormatUint x"
    "takeWhile isNumberChar (FormatUint x) = FormatUint x"
    using formatBits_item [of "unat x"] by (simp_all add: FormatUint_def)
  have v: "checkValid (FormatUint x)"
    by (simp add: FormatUint_def checkValid_formatBits)
  show ?thesis
    using isDigit_not_special [OF d]
    by (simp add: json_Unmarshal_uint64_def v i json_type_error_def ParseUint_FormatUint)
qed

lemma FormatInt_item:
  "dropWhile isSpace (FormatInt w) = FormatInt w
   \<and> takeWhile isNumberChar (FormatInt w) = FormatInt w"
proof (cases "w <s 0")
  case True
  then have f: "FormatInt w = CHR ''-'' # formatBits (unat (- w))"
    by (simp add: FormatInt_def)
  show ?thesis
    using formatBits_item [of "unat (- w)"] by (simp add: f isSpace_def isNumberChar_def)
next
  case False
  then have f: "FormatInt w = formatBits (unat w)"
    by (simp add: FormatInt_def)
  show ?thesis
    using formatBits_item [of "unat w"] by (simp add: f)
qed

lemma checkValid_FormatInt: "checkValid (FormatInt w)"
proof (cases "w <s 0")
  case True
  then have "w \<noteq> 0" by auto
  then have "- w \<noteq> 0" by simp
  then have "0 < unat (- w)" by (simp add: unat_gt_0)
  then show ?thesis
    using True by (simp add: FormatInt_def checkValid_minus_formatBits)
next
  case False
  then show ?thesis
    by (simp add: FormatInt_def checkValid_formatBits)
qed

lemma json_Unmarshal_int64_FormatInt:
  "json_Unmarshal_int64 (FormatInt w) y = (w, None)"
proof -
  have h: "hd (FormatInt w) = CHR ''-'' \<or> isDigit (hd (FormatInt w))"
    by (rule FormatInt_hd)
  then have t: "hd (FormatInt w) \<noteq> CHR ''n'' \<and> json_type_error (hd (FormatInt w)) = None"
    using isDigit_not_special [of "hd (FormatInt w)"] by (auto simp: json_type_error_def)
  show ?thesis
    using t
    by (simp add: json_Unmarshal_int64_def checkValid_FormatInt FormatInt_item
        ParseInt_FormatInt_64)
qed

subsection \<open>Round trips\<close>

lemma Uint_UnmarshalJSON_FormatUint:
  "Uint_UnmarshalJSON u (FormatUint x) = (\<lparr>Uint_Uint = x, Uint_Valid = (x \<noteq> 0)\<rparr>, None)"
  using NullBytes_not_FormatUint [of x]
  by (cases u)
    (simp add: Uint_UnmarshalJSON_def json_Unmarshal_interface_FormatUint
      json_Unmarshal_uint64_FormatUint eq_commute [of NullBytes])

lemma Uint64_UnmarshalJSON_FormatUint:
  "Uint64_UnmarshalJSON w (FormatUint x)
     = (\<lparr>Uint64_Uint64 = x, Uint64_Valid = (x \<noteq> 0)\<rparr>, None)"
  using NullBytes_not_FormatUint [of x]
  by (cases w)
    (simp add: Uint64_UnmarshalJSON_def json_Unmarshal_interface_FormatUint
      json_Unmarshal_uint64_FormatUint eq_commute [of NullBytes])

lemma Int16_UnmarshalJSON_FormatInt:
  "Int16_UnmarshalJSON i (FormatInt (scast v))
     = (\<lparr>Int16_Int16 = v, Int16_Valid = True, Int16_set = True\<rparr>, None)"
  using NullBytes_not_FormatInt [of "scast v"]
  by (cases i)
    (simp add: Int16_UnmarshalJSON_def json_Unmarshal_int64_FormatInt scast_16_not_above
      ucast_scast_16 eq_commute [of NullBytes])

lemma Int16_UnmarshalText_FormatInt:
  "Int16_UnmarshalText i (FormatInt (scast v))
     = (\<lparr>Int16_Int16 = v, Int16_Valid = True, Int16_set = True\<rparr>, None)"
  by (cases i)
    (simp add: Int16_UnmarshalText_def FormatInt_ne ParseInt_FormatInt_16 ucast_scast_16)

lemma Uint_UnmarshalText_FormatUint:
  "Uint_UnmarshalText u (FormatUint x) = (\<lparr>Uint_Uint = x, Uint_Valid = True\<rparr>, None)"
  by (cases u) (simp add: Uint_UnmarshalText_def FormatUint_ne ParseUint_FormatUint_0)

lemma Uint64_UnmarshalText_FormatUint:
  "Uint64_UnmarshalText w (FormatUint x)
     = (\<lparr>Uint64_Uint64 = x, Uint64_Valid = True\<rparr>, None)"
  by (cases w) (simp add: Uint64_UnmarshalText_def FormatUint_ne ParseUint_FormatUint)

text \<open>
  C1, as the code has it. Whatever the prior state of the instance that is decoded
  into: for \<open>Int16\<close> and every \<open>v\<close>, and for \<open>Uint\<close> and \<open>Uint64\<close> and every \<open>v\<close> other than
  0, \<open>UnmarshalJSON\<close> of the JSON encoding of \<open>From(v)\<close> returns a nil error and leaves
  \<open>From(v)\<close>; for \<open>Uint\<close> and \<open>Uint64\<close> the JSON encoding of \<open>From(0)\<close> decodes to the
  invalid instance with the number 0. \<open>UnmarshalText\<close> of the text encoding of
  \<open>From(v)\<close> leaves \<open>From(v)\<close> for all three types and every \<open>v\<close>.
\<close>

theorem From_roundtrip:
  "Int16_UnmarshalJSON i (fst (Int16_MarshalJSON (Int16From v))) = (Int16From v, None)
   \<and> Int16_UnmarshalText i (fst (Int16_MarshalText (Int16From v))) = (Int16From v, None)
   \<and> (x \<noteq> 0 \<longrightarrow>
        Uint_UnmarshalJSON u (fst (Uint_MarshalJSON (UintFrom x))) = (UintFrom x, None))
   \<and> Uint_UnmarshalJSON u (fst (Uint_MarshalJSON (UintFrom 0)))
        = (\<lparr>Uint_Uint = 0, Uint_Valid = False\<rparr>, None)
   \<and> Uint_UnmarshalText u (fst (Uint_MarshalText (UintFrom x))) = (UintFrom x, None)
   \<and> (x \<noteq> 0 \<longrightarrow>
        Uint64_UnmarshalJSON w (fst (Uint64_MarshalJSON (Uint64From x))) = (Uint64From x, None))
   \<and> Uint64_UnmarshalJSON w (fst (Uint64_MarshalJSON (Uint64From 0)))
        = (\<lparr>Uint64_Uint64 = 0, Uint64_Valid = False\<rparr>, None)
   \<and> Uint64_UnmarshalText w (fst (Uint64_MarshalText (Uint64From x))) = (Uint64From x, None)"
  by (simp add: Int16_MarshalJSON_def Int16_MarshalText_def Int16From_def NewInt16_def
      Uint_MarshalJSON_def Uint_MarshalText_def UintFrom_def NewUint_def
      Uint64_MarshalJSON_def Uint64_MarshalText_def Uint64From_def NewUint64_def
      Int16_UnmarshalJSON_FormatInt Int16_UnmarshalText_FormatInt
      Uint_UnmarshalJSON_FormatUint Uint_UnmarshalText_FormatUint
      Uint64_UnmarshalJSON_FormatUint Uint64_UnmarshalText_FormatUint)

theorem From_roundtrip_witness:
  "(5 :: 64 word) \<noteq> 0
   \<and> Uint_UnmarshalJSON \<lparr>Uint_Uint = 9, Uint_Valid = False\<rparr> (fst (Uint_MarshalJSON (UintFrom 5)))
       = (UintFrom 5, None)
   \<and> Uint64_UnmarshalJSON \<lparr>Uint64_Uint64 = 9, Uint64_Valid = False\<rparr>
         (fst (Uint64_MarshalJSON (Uint64From 5)))
       = (Uint64From 5, None)"
  using From_roundtrip [where x = 5 and u = "\<lparr>Uint_Uint = 9, Uint_Valid = False\<rparr>"
      and w = "\<lparr>Uint64_Uint64 = 9, Uint64_Valid = False\<rparr>"]
  by simp

text \<open>
  C1 as stated fails at 0 for the two unsigned types: the JSON encoding of \<open>From(0)\<close> is
  the literal \<open>0\<close>, and decoding it, here into the zero value of the struct, gives an
  instance that is not valid, hence not \<open>From(0)\<close>.
\<close>

theorem From_zero_roundtrip_fails:
  "fst (Uint_MarshalJSON (UintFrom 0)) = ''0''
   \<and> Uint_UnmarshalJSON \<lparr>Uint_Uint = 0, Uint_Valid = False\<rparr> (fst (Uint_MarshalJSON (UintFrom 0)))
       = (\<lparr>Uint_Uint = 0, Uint_Valid = False\<rparr>, None)
   \<and> fst (Uint_UnmarshalJSON \<lparr>Uint_Uint = 0, Uint_Valid = False\<rparr>
         (fst (Uint_MarshalJSON (UintFrom 0)))) \<noteq> UintFrom 0
   \<and> fst (Uint64_MarshalJSON (Uint64From 0)) = ''0''
   \<and> Uint64_UnmarshalJSON \<lparr>Uint64_Uint64 = 0, Uint64_Valid = False\<rparr>
         (fst (Uint64_MarshalJSON (Uint64From 0)))
       = (\<lparr>Uint64_Uint64 = 0, Uint64_Valid = False\<rparr>, None)
   \<and> fst (Uint64_UnmarshalJSON \<lparr>Uint64_Uint64 = 0, Uint64_Valid = False\<rparr>
         (fst (Uint64_MarshalJSON (Uint64From 0)))) \<noteq> Uint64From 0"
proof -
  have z: "FormatUint 0 = ''0''"
    by (simp add: FormatUint_def formatBits_0)
  show ?thesis
    using Uint_UnmarshalJSON_FormatUint [of "\<lparr>Uint_Uint = 0, Uint_Valid = False\<rparr>" 0]
      Uint64_UnmarshalJSON_FormatUint [of "\<lparr>Uint64_Uint64 = 0, Uint64_Valid = False\<rparr>" 0]
    by (simp add: Uint_MarshalJSON_def UintFrom_def NewUint_def
        Uint64_MarshalJSON_def Uint64From_def NewUint64_def z)
qed

subsection \<open>The parts of C2 and C4 that hold\<close>

text \<open>
  A literal that \<open>json.Unmarshal\<close> reads as an \<open>int64\<close> above 32767 is refused by
  \<open>Int16.UnmarshalJSON\<close> with the overflow error, and nothing but \<open>set\<close> is written.
\<close>

lemma Int16_UnmarshalJSON_above_range:
  "json_Unmarshal_int64 data 0 = (x, None) \<Longrightarrow> 32767 <s x \<Longrightarrow>
     Int16_UnmarshalJSON i data = (i\<lparr>Int16_set := True\<rparr>, Some (OverflowError x))"
proof -
  assume a: "json_Unmarshal_int64 data 0 = (x, None)" and b: "32767 <s x"
  have "data \<noteq> NullBytes"
  proof
    assume n: "data = NullBytes"
    have "checkValid ''null''" by (simp add: scanner_defs)
    then have "json_Unmarshal_int64 ''null'' 0 = (0, None)"
      by (simp add: json_Unmarshal_int64_def isSpace_def)
    with a n have "x = 0" by (simp add: NullBytes_def)
    with b show False by (simp add: word_sless_alt)
  qed
  then show ?thesis
    using a b by (simp add: Int16_UnmarshalJSON_def)
qed

text \<open>An error of \<open>UnmarshalText\<close> leaves \<open>Valid\<close> false, for each of the three types.\<close>

lemma UnmarshalText_error_invalid:
  "(snd (Int16_UnmarshalText i t) \<noteq> None \<longrightarrow> \<not> Int16_Valid (fst (Int16_UnmarshalText i t)))
   \<and> (snd (Uint_UnmarshalText u t) \<noteq> None \<longrightarrow> \<not> Uint_Valid (fst (Uint_UnmarshalText u t)))
   \<and> (snd (Uint64_UnmarshalText w t) \<noteq> None \<longrightarrow>
        \<not> Uint64_Valid (fst (Uint64_UnmarshalText w t)))"
  by (simp add: Int16_UnmarshalText_def Uint_UnmarshalText_def Uint64_UnmarshalText_def
      Let_def split: prod.splits)

text \<open>
  So does an error of \<open>Uint.UnmarshalJSON\<close> and \<open>Uint64.UnmarshalJSON\<close> that comes after the
  first \<open>json.Unmarshal\<close> has succeeded.
\<close>

lemma UnmarshalJSON_late_error_invalid:
  "(json_Unmarshal_interface data = Inr v \<and> snd (Uint_UnmarshalJSON u data) \<noteq> None \<longrightarrow>
      \<not> Uint_Valid (fst (Uint_UnmarshalJSON u data)))
   \<and> (json_Unmarshal_interface data = Inr v \<and> snd (Uint64_UnmarshalJSON w data) \<noteq> None \<longrightarrow>
      \<not> Uint64_Valid (fst (Uint64_UnmarshalJSON w data)))"
  by (cases v)
    (auto simp: Uint_UnmarshalJSON_def Uint64_UnmarshalJSON_def Let_def
      split: prod.splits if_splits)

end
